theory Spec2Isabelle
  imports Complex_Main
begin

section \<open>Values exchanged with the cloud services\<close>

text \<open>
  The program of \<^verbatim>\<open>src/run.py\<close> talks to three service clients (ec2, inspector, sns).
  Every response is a Python dictionary; a key read with \<^verbatim>\<open>.get\<close> is an optional
  field (an absent key reads as Python's None), a key read with \<^verbatim>\<open>[...]\<close> raises
  KeyError when absent. The fields bear the names of the keys; the key \<^verbatim>\<open>Instances\<close> of
  a \<^verbatim>\<open>run_instances\<close> response is the field \<open>launched\<close>, and the parameters of a
  \<^verbatim>\<open>run_instances\<close> request are prefixed with \<open>rq_\<close>.
\<close>

datatype exn =
    ClientError string
  | TypeError
  | AttributeError
  | KeyError string
  | SystemExit nat

type_synonym image_id = "string option"
type_synonym instance_id = string
type_synonym arn = "string option"
type_synonym token = "string option"

record date =
  year :: nat
  month :: nat
  day_of_month :: nat

record datetime =
  dt_date :: date
  dt_seconds :: nat

record ec2_instance =
  ImageId :: image_id

record reservation =
  Instances :: "ec2_instance list option"

record describe_instances_response =
  Reservations :: "reservation list option"

record launched_instance =
  InstanceId :: "instance_id option"

record run_instances_response =
  launched :: "launched_instance list option"

record run_instances_request =
  rq_ImageId :: image_id
  rq_InstanceType :: string
  rq_UserData :: string
  rq_DryRun :: bool
  rq_MaxCount :: nat
  rq_MinCount :: nat
  rq_SecurityGroupIds :: "string option list"
  rq_SubnetId :: "string option"
  rq_Tags :: "(string \<times> string) list"

record start_assessment_run_response =
  assessmentRunArn :: arn

record assessment_run =
  createdAt :: "datetime option"
  state :: "string option"

record describe_assessment_runs_response =
  assessmentRuns :: "assessment_run list option"

record finding_filter =
  severities :: "string list"

record list_findings_response =
  nextToken :: token
  findingArns :: "string list option"

datatype finding = Finding string

record describe_findings_response =
  findings :: "finding list option"

section \<open>Observable events and runs\<close>

datatype level = INFO | ERROR | FATAL

datatype fmt_arg =
    ArgImages "image_id list"
  | ArgIds "instance_id list"
  | ArgNat nat
  | ArgArn arn

text \<open>
  One event per call to a service client, per \<^verbatim>\<open>time.sleep\<close>, per \<^verbatim>\<open>print\<close> and per
  logger call. A log line carries the text of the message with \<^verbatim>\<open>{}\<close> where the
  f-string interpolates a value, and the interpolated values.
\<close>

datatype event =
    DescribeInstances
  | RunInstances run_instances_request
  | Print "instance_id list"
  | WaiterWait "instance_id list"
  | StartAssessmentRun "string option" string
  | DescribeAssessmentRuns "arn list"
  | Sleep nat
  | ListFindings "arn list" nat finding_filter token
  | DescribeFindings "string list"
  | Publish "string option" string
  | TerminateInstances "instance_id list"
  | Log level string "fmt_arg list"

text \<open>
  The services, as the responses they give. A response may depend on the request and
  on how many requests of the same kind came before (the first argument, where there
  is one); \<open>Inl\<close> is an exception raised by the client call.
\<close>

record services =
  describe_instances :: "exn + describe_instances_response"
  run_instances :: "nat \<Rightarrow> run_instances_request \<Rightarrow> exn + run_instances_response"
  waiter_wait :: "instance_id list \<Rightarrow> exn + unit"
  start_assessment_run :: "string option \<Rightarrow> string \<Rightarrow> exn + start_assessment_run_response"
  describe_assessment_runs :: "nat \<Rightarrow> arn list \<Rightarrow> exn + describe_assessment_runs_response"
  list_findings :: "nat \<Rightarrow> arn list \<Rightarrow> finding_filter \<Rightarrow> token \<Rightarrow> exn + list_findings_response"
  describe_findings :: "nat \<Rightarrow> string list \<Rightarrow> exn + describe_findings_response"
  publish :: "string option \<Rightarrow> string \<Rightarrow> exn + unit"
  terminate_instances :: "instance_id list \<Rightarrow> exn + unit"

text \<open>The process environment and the clock read by \<^verbatim>\<open>datetime.today()\<close>.\<close>

record environ =
  SNS_ALERT_TOPIC_ARN :: "string option"
  INSTANCE_SUBNET_ID :: "string option"
  INSTANCE_SECURITY_GROUP :: "string option"
  INSPECTOR_ASSESSMENT_TEMPLATE :: "string option"
  today_at_scan_start :: date
  today_at_await :: date

text \<open>
  The result of running a piece of the program: it returns a value, raises an
  exception, or is still running when the fuel of an unbounded loop is used up.
  A run is the events so far, in order, with the result.
\<close>

datatype 'a result = Return 'a | Raise exn | Diverge

type_synonym 'a run = "event list \<times> 'a result"

definition return_run :: "'a \<Rightarrow> 'a run" where
  "return_run v = ([], Return v)"

definition raise_run :: "exn \<Rightarrow> 'a run" where
  "raise_run e = ([], Raise e)"

definition bind_run :: "'a run \<Rightarrow> ('a \<Rightarrow> 'b run) \<Rightarrow> 'b run" where
  "bind_run m f =
     (case m of
        (tr, Return v) \<Rightarrow> (case f v of (tr', r) \<Rightarrow> (tr @ tr', r))
      | (tr, Raise e) \<Rightarrow> (tr, Raise e)
      | (tr, Diverge) \<Rightarrow> (tr, Diverge))"

definition call :: "event \<Rightarrow> exn + 'a \<Rightarrow> 'a run" where
  "call ev r = ([ev], case r of Inl e \<Rightarrow> Raise e | Inr v \<Rightarrow> Return v)"

definition log :: "level \<Rightarrow> string \<Rightarrow> fmt_arg list \<Rightarrow> unit run" where
  "log l msg args = ([Log l msg args], Return ())"

text \<open>
  \<^verbatim>\<open>try: body finally: handler\<close>. The handler runs after the body returned or raised;
  an exception of the handler replaces the body's.
\<close>

definition finally_run :: "'a run \<Rightarrow> unit run \<Rightarrow> 'a run" where
  "finally_run body handler =
     (case body of
        (tr, Diverge) \<Rightarrow> (tr, Diverge)
      | (tr, Return v) \<Rightarrow>
          (case handler of
             (tr', Return u) \<Rightarrow> (tr @ tr', Return v)
           | (tr', Raise e) \<Rightarrow> (tr @ tr', Raise e)
           | (tr', Diverge) \<Rightarrow> (tr @ tr', Diverge))
      | (tr, Raise e) \<Rightarrow>
          (case handler of
             (tr', Return u) \<Rightarrow> (tr @ tr', Raise e)
           | (tr', Raise e') \<Rightarrow> (tr @ tr', Raise e')
           | (tr', Diverge) \<Rightarrow> (tr @ tr', Diverge)))"

section \<open>Image discovery and provisioning\<close>

text \<open>\<^verbatim>\<open>fetch_amis\<close>, lines 21 to 31: the image identifiers in first-seen order.\<close>

fun amis_of_instances :: "ec2_instance list \<Rightarrow> image_id list \<Rightarrow> image_id list" where
  "amis_of_instances [] amis = amis"
| "amis_of_instances (i # is) amis =
     amis_of_instances is (if ImageId i \<notin> set amis then amis @ [ImageId i] else amis)"

fun amis_of_reservations :: "reservation list \<Rightarrow> image_id list \<Rightarrow> exn + image_id list" where
  "amis_of_reservations [] amis = Inr amis"
| "amis_of_reservations (r # rs) amis =
     (case Instances r of
        None \<Rightarrow> Inl TypeError
      | Some is \<Rightarrow> amis_of_reservations rs (amis_of_instances is amis))"

definition fetch_amis :: "services \<Rightarrow> image_id list run" where
  "fetch_amis sv =
     bind_run (call DescribeInstances (describe_instances sv)) (\<lambda>response.
       case Reservations response of
         None \<Rightarrow> raise_run TypeError
       | Some reservations \<Rightarrow>
           (case amis_of_reservations reservations [] of
              Inl e \<Rightarrow> raise_run e
            | Inr amis \<Rightarrow> return_run amis))"

text \<open>
  \<^verbatim>\<open>start_ec2_intances\<close>, lines 34 to 55. The launch loop collects the responses in a
  local list; the identifiers are read from them only after the last launch.
\<close>

fun launch_all :: "services \<Rightarrow> string \<Rightarrow> string \<Rightarrow> (string \<times> string) list \<Rightarrow> string option \<Rightarrow>
    string option \<Rightarrow> nat \<Rightarrow> image_id list \<Rightarrow> run_instances_response list \<Rightarrow>
    run_instances_response list run" where
  "launch_all sv instance_type user_data tags subnet_id sg k [] instances = return_run instances"
| "launch_all sv instance_type user_data tags subnet_id sg k (ami # amis) instances =
     (let rq = \<lparr>rq_ImageId = ami, rq_InstanceType = instance_type, rq_UserData = user_data,
                rq_DryRun = False, rq_MaxCount = 1, rq_MinCount = 1,
                rq_SecurityGroupIds = [sg], rq_SubnetId = subnet_id, rq_Tags = tags\<rparr>
      in bind_run (call (RunInstances rq) (run_instances sv k rq)) (\<lambda>instance.
           launch_all sv instance_type user_data tags subnet_id sg (Suc k) amis
             (instances @ [instance])))"

fun ids_of_launched :: "launched_instance list \<Rightarrow> exn + instance_id list" where
  "ids_of_launched [] = Inr []"
| "ids_of_launched (i # is) =
     (case InstanceId i of
        None \<Rightarrow> Inl (KeyError ''InstanceId'')
      | Some x \<Rightarrow> (case ids_of_launched is of Inl e \<Rightarrow> Inl e | Inr xs \<Rightarrow> Inr (x # xs)))"

fun ids_of_responses :: "run_instances_response list \<Rightarrow> exn + instance_id list" where
  "ids_of_responses [] = Inr []"
| "ids_of_responses (r # rs) =
     (case launched r of
        None \<Rightarrow> Inl (KeyError ''Instances'')
      | Some is \<Rightarrow>
          (case ids_of_launched is of
             Inl e \<Rightarrow> Inl e
           | Inr xs \<Rightarrow> (case ids_of_responses rs of Inl e \<Rightarrow> Inl e | Inr ys \<Rightarrow> Inr (xs @ ys))))"

definition start_ec2_intances :: "services \<Rightarrow> string \<Rightarrow> image_id list \<Rightarrow> string \<Rightarrow>
    (string \<times> string) list \<Rightarrow> string option \<Rightarrow> string option \<Rightarrow> instance_id list run" where
  "start_ec2_intances sv instance_type amis user_data tags subnet_id instance_security_group =
     bind_run (launch_all sv instance_type user_data tags subnet_id instance_security_group 0 amis [])
       (\<lambda>instances.
          case ids_of_responses instances of
            Inl e \<Rightarrow> raise_run e
          | Inr instance_ids \<Rightarrow>
              bind_run ([Print instance_ids], Return ()) (\<lambda>_. return_run instance_ids))"

definition terminate_ec2_instances :: "services \<Rightarrow> instance_id list \<Rightarrow> unit run" where
  "terminate_ec2_instances sv instance_ids =
     call (TerminateInstances instance_ids) (terminate_instances sv instance_ids)"

section \<open>Scan orchestration\<close>

text \<open>Python's \<^verbatim>\<open>str\<close> of a non-negative integer and of a date (ISO format).\<close>

definition digit_char :: "nat \<Rightarrow> char" where
  "digit_char d = ''0123456789'' ! d"

fun str_nat :: "nat \<Rightarrow> string" where
  "str_nat n = (if n < 10 then [digit_char n] else str_nat (n div 10) @ [digit_char (n mod 10)])"

definition zero_pad :: "nat \<Rightarrow> string \<Rightarrow> string" where
  "zero_pad w s = replicate (w - length s) (CHR ''0'') @ s"

definition str_date :: "date \<Rightarrow> string" where
  "str_date d =
     zero_pad 4 (str_nat (year d)) @ ''-'' @ zero_pad 2 (str_nat (month d)) @ ''-'' @
     zero_pad 2 (str_nat (day_of_month d))"

text \<open>\<^verbatim>\<open>start_inspector_scan\<close>, lines 62 to 67.\<close>

definition assessmentRunName :: "date \<Rightarrow> string" where
  "assessmentRunName today = ''running-amis-scheduled-scan-'' @ str_date today"

definition start_inspector_scan :: "services \<Rightarrow> string option \<Rightarrow> date \<Rightarrow> arn run" where
  "start_inspector_scan sv scan_template today =
     bind_run (call (StartAssessmentRun scan_template (assessmentRunName today))
                 (start_assessment_run sv scan_template (assessmentRunName today)))
       (\<lambda>response. return_run (assessmentRunArn response))"

text \<open>
  \<^verbatim>\<open>await_inspector_results\<close>, lines 70 to 97.

  \<open>runs\<close> is a Python 3 \<^verbatim>\<open>filter\<close> object (the file uses f-strings, so it is Python 3):
  a lazy iterator, which has neither \<^verbatim>\<open>__bool__\<close> nor \<^verbatim>\<open>__len__\<close> and is therefore true
  whatever it will yield. The \<^verbatim>\<open>for\<close> loop pulls the records one at a time, so the
  date test of a record (which raises AttributeError when \<^verbatim>\<open>createdAt\<close> is absent) runs
  only when the loop reaches that record.
\<close>

definition max_total_wait :: nat where
  "max_total_wait = 7260"

definition sleep_time :: nat where
  "sleep_time = 60"

definition truth_of_filter_object :: "assessment_run list \<Rightarrow> bool" where
  "truth_of_filter_object records = True"

definition terminal_state :: "string option \<Rightarrow> bool" where
  "terminal_state s = (s = Some ''COMPLETED'' \<or> s = Some ''COMPLETED_WITH_ERRORS'')"

fun scan_runs :: "date \<Rightarrow> assessment_run list \<Rightarrow> exn + bool" where
  "scan_runs day [] = Inr False"
| "scan_runs day (x # xs) =
     (case createdAt x of
        None \<Rightarrow> Inl AttributeError
      | Some created \<Rightarrow>
          if day = dt_date created then
            (if terminal_state (state x) then Inr True else scan_runs day xs)
          else scan_runs day xs)"

function await_loop :: "services \<Rightarrow> arn \<Rightarrow> date \<Rightarrow> nat \<Rightarrow> nat \<Rightarrow> bool run" where
  "await_loop sv assessment_run_arn day k total_wait =
     bind_run (call (DescribeAssessmentRuns [assessment_run_arn])
                 (describe_assessment_runs sv k [assessment_run_arn]))
       (\<lambda>response.
          case assessmentRuns response of
            None \<Rightarrow> raise_run TypeError
          | Some records \<Rightarrow>
              bind_run (if \<not> truth_of_filter_object records
                        then log FATAL ''No assessment runs found!'' []
                        else return_run ())
                (\<lambda>_. case scan_runs day records of
                        Inl e \<Rightarrow> raise_run e
                      | Inr True \<Rightarrow>
                          bind_run (log INFO ''Inspector scan completed'' [])
                            (\<lambda>_. return_run True)
                      | Inr False \<Rightarrow>
                          bind_run (log INFO ''Inspector scan not completed yet. Waiting {} seconds.''
                                      [ArgNat sleep_time])
                            (\<lambda>_. bind_run ([Sleep sleep_time], Return ())
                               (\<lambda>_. if total_wait + sleep_time \<ge> max_total_wait
                                     then bind_run (log ERROR ''Exceeded inspector max wait'' [])
                                            (\<lambda>_. return_run False)
                                     else await_loop sv assessment_run_arn day (Suc k)
                                            (total_wait + sleep_time)))))"
  by pat_completeness auto
termination
  by (relation "measure (\<lambda>(sv, a, d, k, total_wait). max_total_wait - total_wait)")
     (auto simp: max_total_wait_def sleep_time_def)

definition await_inspector_results :: "services \<Rightarrow> arn \<Rightarrow> date \<Rightarrow> bool run" where
  "await_inspector_results sv assessment_run_arn day = await_loop sv assessment_run_arn day 0 0"

text \<open>
  \<^verbatim>\<open>retrieve_finding_arns\<close>, lines 100 to 122. The loop ends only when the service
  sends a response without a continuation token, so it is given fuel: one unit per
  request. \<open>next_token\<close> starts as the empty string; an empty string and None are false.
\<close>

definition truthy :: "string option \<Rightarrow> bool" where
  "truthy t = (case t of None \<Rightarrow> False | Some s \<Rightarrow> s \<noteq> [])"

fun retrieve_loop :: "nat \<Rightarrow> services \<Rightarrow> arn \<Rightarrow> finding_filter \<Rightarrow> nat \<Rightarrow> token \<Rightarrow>
    string list \<Rightarrow> string list run" where
  "retrieve_loop 0 sv assessment_run_arn flt k next_token finding_arns = ([], Diverge)"
| "retrieve_loop (Suc fuel) sv assessment_run_arn flt k next_token finding_arns =
     (let sent = (if truthy next_token then next_token else None)
      in bind_run (call (ListFindings [assessment_run_arn] 500 flt sent)
                     (list_findings sv k [assessment_run_arn] flt sent))
           (\<lambda>response.
              case findingArns response of
                None \<Rightarrow> raise_run TypeError
              | Some page \<Rightarrow>
                  if \<not> truthy (nextToken response) then return_run (finding_arns @ page)
                  else retrieve_loop fuel sv assessment_run_arn flt (Suc k)
                         (nextToken response) (finding_arns @ page)))"

definition retrieve_finding_arns :: "nat \<Rightarrow> services \<Rightarrow> arn \<Rightarrow> finding_filter \<Rightarrow>
    string list run" where
  "retrieve_finding_arns fuel sv assessment_run_arn flt =
     retrieve_loop fuel sv assessment_run_arn flt 0 (Some []) []"

text \<open>
  \<^verbatim>\<open>retrieve_findings\<close>, lines 125 to 136. \<^verbatim>\<open>ceil(n / 100)\<close> is computed in floating
  point, which is exact for every length a list can have. A Python slice
  \<^verbatim>\<open>xs[a:b]\<close> with non-negative bounds holds the elements at the indices from \<open>a\<close>
  up to but not including \<open>b\<close>.
\<close>

definition ceil_div :: "nat \<Rightarrow> nat \<Rightarrow> nat" where
  "ceil_div n d = (n + d - 1) div d"

definition slice :: "'a list \<Rightarrow> nat \<Rightarrow> nat \<Rightarrow> 'a list" where
  "slice xs a b = drop a (take b xs)"

definition pagination_start :: "nat \<Rightarrow> nat" where
  "pagination_start index = index * 100"

definition pagination_end :: "nat \<Rightarrow> nat \<Rightarrow> nat" where
  "pagination_end amount_of_findings index =
     (if pagination_start index + 99 > amount_of_findings then amount_of_findings - 1
      else pagination_start index + 99)"

fun hydrate :: "services \<Rightarrow> string list \<Rightarrow> nat list \<Rightarrow> finding list \<Rightarrow> finding list run" where
  "hydrate sv finding_arns [] fs = return_run fs"
| "hydrate sv finding_arns (index # rest) fs =
     (let batch = slice finding_arns (pagination_start index)
                    (pagination_end (length finding_arns) index)
      in bind_run (call (DescribeFindings batch) (describe_findings sv index batch))
           (\<lambda>response.
              case findings response of
                None \<Rightarrow> raise_run TypeError
              | Some page \<Rightarrow> hydrate sv finding_arns rest (fs @ page)))"

definition retrieve_findings :: "services \<Rightarrow> string list \<Rightarrow> finding list run" where
  "retrieve_findings sv finding_arns =
     hydrate sv finding_arns [0 ..< ceil_div (length finding_arns) 100] []"

text \<open>\<^verbatim>\<open>publish_finding_data\<close>, lines 139 to 143.\<close>

definition publish_finding_data :: "services \<Rightarrow> string option \<Rightarrow> string \<Rightarrow> unit run" where
  "publish_finding_data sv topic message = call (Publish topic message) (publish sv topic message)"

section \<open>The entry point\<close>

definition user_data :: string where
  "user_data = concat (map (\<lambda>l. l @ [CHR 0x0A])
     [''#!/bin/bash -xe'',
      ''sudo yum install -y awslogs'',
      ''sudo systemctl start awslogsd'',
      ''wget https://d1wk0tztpsntt1.cloudfront.net/linux/latest/inspector.gpg'',
      ''gpg --import inspector.gpg'',
      ''wget https://inspector-agent.amazonaws.com/linux/latest/install'',
      ''curl -O https://d1wk0tztpsntt1.cloudfront.net/linux/latest/install.sig'',
      ''gpg --verify ./install.sig'',
      ''sudo bash install'',
      ''sudo systemctl start awsagent'',
      ''sudo systemctl status awsagent''])"

definition instance_type :: string where
  "instance_type = ''t2.micro''"

definition tags :: "(string \<times> string) list" where
  "tags = [(''vulnerability-assessment'', ''true'')]"

definition finding_filter :: finding_filter where
  "finding_filter = \<lparr>severities = [''High'']\<rparr>"

text \<open>Python's \<^verbatim>\<open>str\<close> of the dictionary \<^verbatim>\<open>{'severities': ['High']}\<close>.\<close>

definition str_finding_filter :: string where
  "str_finding_filter = ''{'severities': ['High']}''"

definition alert_message :: "nat \<Rightarrow> string" where
  "alert_message amount_of_findings =
     ''Inspector scan resulted in '' @ str_nat amount_of_findings @
     '' findings with filter '' @ str_finding_filter"

text \<open>The body of the \<^verbatim>\<open>try\<close>, lines 189 to 221.\<close>

definition try_block :: "nat \<Rightarrow> environ \<Rightarrow> services \<Rightarrow> instance_id list \<Rightarrow> unit run" where
  "try_block fuel en sv instance_ids =
     bind_run (log INFO ''Started instances {}'' [ArgIds instance_ids]) (\<lambda>_.
     bind_run (log INFO ''Awaiting {}'' [ArgIds instance_ids]) (\<lambda>_.
     bind_run (call (WaiterWait instance_ids) (waiter_wait sv instance_ids)) (\<lambda>_.
     bind_run (log INFO ''Starting Inspector run'' []) (\<lambda>_.
     bind_run (start_inspector_scan sv (INSPECTOR_ASSESSMENT_TEMPLATE en) (today_at_scan_start en))
       (\<lambda>assessment_run_arn.
     bind_run (log INFO ''Awaiting Inspector results'' []) (\<lambda>_.
     bind_run (await_inspector_results sv assessment_run_arn (today_at_await en)) (\<lambda>_.
     bind_run (log INFO ''Retrieving findings'' []) (\<lambda>_.
     bind_run (retrieve_finding_arns fuel sv assessment_run_arn finding_filter) (\<lambda>finding_arns.
       if finding_arns \<noteq> [] then
         bind_run (log INFO ''Publishing amount of high findings'' []) (\<lambda>_.
           publish_finding_data sv (SNS_ALERT_TOPIC_ARN en) (alert_message (length finding_arns)))
       else
         log INFO ''No findings found for assessment run {}'' [ArgArn assessment_run_arn])))))))))"

text \<open>The \<^verbatim>\<open>finally\<close> clause, lines 223 to 226.\<close>

definition finally_block :: "services \<Rightarrow> instance_id list \<Rightarrow> unit run" where
  "finally_block sv instance_ids =
     bind_run (log INFO ''Tearing down EC2 instances'' []) (\<lambda>_.
       terminate_ec2_instances sv instance_ids)"

text \<open>
  \<^verbatim>\<open>__main__\<close>, lines 146 to 226. \<^verbatim>\<open>sys.exit(1)\<close> raises SystemExit; the call of
  \<^verbatim>\<open>start_ec2_intances\<close> stands before the \<^verbatim>\<open>try\<close>.
\<close>

definition main :: "nat \<Rightarrow> environ \<Rightarrow> services \<Rightarrow> unit run" where
  "main fuel en sv =
     bind_run (log INFO ''Fetching AMIs in use'' []) (\<lambda>_.
     bind_run (fetch_amis sv) (\<lambda>amis.
     bind_run (if amis = [] then
                 bind_run (log FATAL ''No AMIs found'' []) (\<lambda>_. raise_run (SystemExit 1))
               else return_run ()) (\<lambda>_.
     bind_run (log INFO ''Starting EC2 instances with AMIs: {}'' [ArgImages amis]) (\<lambda>_.
     bind_run (start_ec2_intances sv instance_type amis user_data tags
                 (INSTANCE_SUBNET_ID en) (INSTANCE_SECURITY_GROUP en)) (\<lambda>instance_ids.
       finally_run (try_block fuel en sv instance_ids) (finally_block sv instance_ids))))))"

text \<open>
  The exit status of the process: 0 when the script runs to its end, the argument of
  \<^verbatim>\<open>sys.exit\<close>, and 1 after any other uncaught exception.
\<close>

definition exit_code :: "unit result \<Rightarrow> nat option" where
  "exit_code r =
     (case r of
        Return u \<Rightarrow> Some 0
      | Raise (SystemExit c) \<Rightarrow> Some c
      | Raise e \<Rightarrow> Some 1
      | Diverge \<Rightarrow> None)"

section \<open>Classes of events\<close>

fun is_launch :: "event \<Rightarrow> bool" where
  "is_launch (RunInstances rq) = True"
| "is_launch e = False"

fun is_terminate :: "event \<Rightarrow> bool" where
  "is_terminate (TerminateInstances ids) = True"
| "is_terminate e = False"

fun is_poll :: "event \<Rightarrow> bool" where
  "is_poll (DescribeAssessmentRuns a) = True"
| "is_poll e = False"

fun is_list_findings :: "event \<Rightarrow> bool" where
  "is_list_findings (ListFindings a n f t) = True"
| "is_list_findings e = False"

fun is_describe_findings :: "event \<Rightarrow> bool" where
  "is_describe_findings (DescribeFindings b) = True"
| "is_describe_findings e = False"

fun is_publish :: "event \<Rightarrow> bool" where
  "is_publish (Publish t m) = True"
| "is_publish e = False"

fun is_fatal_log :: "event \<Rightarrow> bool" where
  "is_fatal_log (Log l m a) = (l = FATAL)"
| "is_fatal_log e = False"

fun is_sleep :: "event \<Rightarrow> bool" where
  "is_sleep (Sleep n) = True"
| "is_sleep e = False"

text \<open>
  The time slept before each poll of a run, in the order of the polls: \<open>t\<close> is the
  time slept so far, a \<^verbatim>\<open>time.sleep(n)\<close> adds \<open>n\<close> to it.
\<close>

fun poll_times :: "event list \<Rightarrow> nat \<Rightarrow> nat list" where
  "poll_times [] t = []"
| "poll_times (Sleep n # es) t = poll_times es (t + n)"
| "poll_times (DescribeAssessmentRuns a # es) t = t # poll_times es t"
| "poll_times (e # es) t = poll_times es t"

text \<open>The events of one round of the poll loop that finds no terminal state and waits.\<close>

definition waiting_round :: "arn \<Rightarrow> event list" where
  "waiting_round a =
     [DescribeAssessmentRuns [a],
      Log INFO ''Inspector scan not completed yet. Waiting {} seconds.'' [ArgNat 60],
      Sleep 60]"

fun batch_of :: "event \<Rightarrow> string list" where
  "batch_of (DescribeFindings b) = b"
| "batch_of e = []"

text \<open>The identifiers passed to detail retrieval in the course of a run.\<close>

definition requested :: "event list \<Rightarrow> string list" where
  "requested tr = concat (map batch_of tr)"

text \<open>Reading a decimal numeral, the inverse of \<open>str_nat\<close>.\<close>

definition nat_of_str :: "string \<Rightarrow> nat" where
  "nat_of_str s = foldl (\<lambda>acc c. 10 * acc + (of_char c - 48)) 0 s"

text \<open>
  What the poll made after \<open>k\<close> intervals finds (lines 76 to 88, without the log
  lines): an exception, or whether a record of the day is in a terminal state.
\<close>

definition observed :: "services \<Rightarrow> arn \<Rightarrow> date \<Rightarrow> nat \<Rightarrow> exn + bool" where
  "observed sv assessment_run_arn day k =
     (case describe_assessment_runs sv k [assessment_run_arn] of
        Inl e \<Rightarrow> Inl e
      | Inr response \<Rightarrow>
          (case assessmentRuns response of
             None \<Rightarrow> Inl TypeError
           | Some records \<Rightarrow> scan_runs day records))"

text \<open>
  The listing service answers the requests of the pagination loop, from request number
  \<open>k\<close> and the token \<open>tok\<close> on, with exactly the responses \<open>rs\<close>: each of them has a
  list of identifiers, each but the last has a continuation token, the last has none.
  \<open>requests\<close> are the requests this takes and \<open>pages_of\<close> the identifiers received.
\<close>

fun delivers :: "services \<Rightarrow> arn \<Rightarrow> finding_filter \<Rightarrow> nat \<Rightarrow> token \<Rightarrow>
    list_findings_response list \<Rightarrow> bool" where
  "delivers sv a flt k tok [] = False"
| "delivers sv a flt k tok (r # rs) =
     (list_findings sv k [a] flt (if truthy tok then tok else None) = Inr r \<and>
      findingArns r \<noteq> None \<and>
      (if rs = [] then \<not> truthy (nextToken r)
       else truthy (nextToken r) \<and> delivers sv a flt (Suc k) (nextToken r) rs))"

fun requests :: "arn \<Rightarrow> finding_filter \<Rightarrow> token \<Rightarrow> list_findings_response list \<Rightarrow>
    event list" where
  "requests a flt tok [] = []"
| "requests a flt tok (r # rs) =
     ListFindings [a] 500 flt (if truthy tok then tok else None) # requests a flt (nextToken r) rs"

definition pages_of :: "list_findings_response list \<Rightarrow> string list" where
  "pages_of rs = concat (map (\<lambda>r. case findingArns r of None \<Rightarrow> [] | Some page \<Rightarrow> page) rs)"

section \<open>Simulated services\<close>

definition scan_day :: date where
  "scan_day = \<lparr>year = 2024, month = 5, day_of_month = 7\<rparr>"

definition run_record :: "date \<Rightarrow> string \<Rightarrow> assessment_run" where
  "run_record d s = \<lparr>createdAt = Some \<lparr>dt_date = d, dt_seconds = 0\<rparr>, state = Some s\<rparr>"

text \<open>
  Services that accept every request: no instance is running, launch number \<open>k\<close>
  gives the instance \<open>i-k\<close>, the scan job has no record and no finding.
\<close>

definition quiet_services :: services where
  "quiet_services =
     \<lparr>describe_instances = Inr \<lparr>Reservations = Some []\<rparr>,
      run_instances = (\<lambda>k rq. Inr \<lparr>launched = Some [\<lparr>InstanceId = Some (''i-'' @ str_nat k)\<rparr>]\<rparr>),
      waiter_wait = (\<lambda>ids. Inr ()),
      start_assessment_run = (\<lambda>t n. Inr \<lparr>assessmentRunArn = Some ''arn:run''\<rparr>),
      describe_assessment_runs = (\<lambda>k a. Inr \<lparr>assessmentRuns = Some []\<rparr>),
      list_findings = (\<lambda>k a f t. Inr \<lparr>nextToken = None, findingArns = Some []\<rparr>),
      describe_findings = (\<lambda>k b. Inr \<lparr>findings = Some (map Finding b)\<rparr>),
      publish = (\<lambda>t m. Inr ()),
      terminate_instances = (\<lambda>ids. Inr ())\<rparr>"

text \<open>A scan job of \<open>scan_day\<close> that is in state COMPLETED once \<open>k\<close> intervals have passed.\<close>

definition completing_after :: "nat \<Rightarrow> services" where
  "completing_after k =
     quiet_services\<lparr>describe_assessment_runs :=
       (\<lambda>i a. Inr \<lparr>assessmentRuns =
          Some [run_record scan_day (if i < k then ''COLLECTING_DATA'' else ''COMPLETED'')]\<rparr>)\<rparr>"

definition demo_environ :: environ where
  "demo_environ =
     \<lparr>SNS_ALERT_TOPIC_ARN = Some ''arn:topic'', INSTANCE_SUBNET_ID = Some ''subnet-1'',
      INSTANCE_SECURITY_GROUP = Some ''sg-1'',
      INSPECTOR_ASSESSMENT_TEMPLATE = Some ''arn:template'',
      today_at_scan_start = scan_day, today_at_await = scan_day\<rparr>"

text \<open>Three running instances on two images.\<close>

definition two_images :: "exn + describe_instances_response" where
  "two_images =
     Inr \<lparr>Reservations = Some [\<lparr>Instances = Some
       [\<lparr>ImageId = Some ''ami-1''\<rparr>, \<lparr>ImageId = Some ''ami-2''\<rparr>, \<lparr>ImageId = Some ''ami-1''\<rparr>]\<rparr>]\<rparr>"

text \<open>The first launch succeeds, every later one is rejected.\<close>

definition second_launch_fails :: services where
  "second_launch_fails =
     quiet_services\<lparr>describe_instances := two_images,
       run_instances :=
         (\<lambda>k rq. if k = 0 then Inr \<lparr>launched = Some [\<lparr>InstanceId = Some ''i-0''\<rparr>]\<rparr>
                  else Inl (ClientError ''InstanceLimitExceeded''))\<rparr>"

text \<open>Two images, a scan that is complete at the second poll, three findings.\<close>

definition end_to_end :: services where
  "end_to_end =
     (completing_after 1)\<lparr>describe_instances := two_images,
       list_findings :=
         (\<lambda>k a f t. Inr \<lparr>nextToken = None, findingArns = Some [''f-1'', ''f-2'', ''f-3'']\<rparr>)\<rparr>"

text \<open>Two images, a scan job that never shows a record, no finding.\<close>

definition never_completing :: services where
  "never_completing = quiet_services\<lparr>describe_instances := two_images\<rparr>"

definition arns250 :: "string list" where
  "arns250 = map (\<lambda>i. ''arn:finding/'' @ str_nat i) [0 ..< 250]"

text \<open>
  A listing delivered in pages of \<open>page_size\<close>: request number \<open>k\<close> must carry the
  token of page \<open>k\<close> (none for the first page) and gets the identifiers from
  \<open>k * page_size\<close> on, with a continuation token if more remain.
\<close>

definition paged_listing :: "string list \<Rightarrow> nat \<Rightarrow> services" where
  "paged_listing listing page_size =
     quiet_services\<lparr>list_findings := (\<lambda>k a f t.
       if t = (if k = 0 then None else Some (str_nat (k * page_size))) then
         Inr \<lparr>nextToken = (if (k + 1) * page_size < length listing
                            then Some (str_nat ((k + 1) * page_size)) else None),
              findingArns = Some (slice listing (k * page_size) ((k + 1) * page_size))\<rparr>
       else Inl (ClientError ''InvalidNextToken''))\<rparr>"

section \<open>Rules for runs\<close>

declare str_nat.simps [simp del]

lemma bind_run_Return [simp]: "bind_run (tr, Return v) f = (tr @ fst (f v), snd (f v))"
  by (simp add: bind_run_def split: prod.splits)

lemma bind_run_Raise [simp]: "bind_run (tr, Raise e) f = (tr, Raise e)"
  by (simp add: bind_run_def)

lemma bind_run_Diverge [simp]: "bind_run (tr, Diverge) f = (tr, Diverge)"
  by (simp add: bind_run_def)

lemma fst_bind_run:
  "fst (bind_run m f) = fst m @ (case snd m of Return v \<Rightarrow> fst (f v) | Raise e \<Rightarrow> [] | Diverge \<Rightarrow> [])"
  by (cases m; cases "snd m") (auto simp: bind_run_def split: prod.splits)

lemma snd_bind_run:
  "snd (bind_run m f) = (case snd m of Return v \<Rightarrow> snd (f v) | Raise e \<Rightarrow> Raise e | Diverge \<Rightarrow> Diverge)"
  by (cases m; cases "snd m") (auto simp: bind_run_def split: prod.splits)

lemma call_simps [simp]:
  "call ev (Inr v) = ([ev], Return v)"
  "call ev (Inl x) = ([ev], Raise x)"
  "fst (call ev r) = [ev]"
  by (simp_all add: call_def)

lemma log_simps [simp]: "log l m a = ([Log l m a], Return ())"
  by (simp add: log_def)

lemma return_run_simps [simp]: "return_run v = ([], Return v)"
  by (simp add: return_run_def)

lemma raise_run_simps [simp]: "raise_run e = ([], Raise e)"
  by (simp add: raise_run_def)

lemma fetch_amis_trace: "fst (fetch_amis sv) = [DescribeInstances]"
  by (simp add: fetch_amis_def fst_bind_run call_def split: sum.split option.split)

lemma launch_all_filter:
  "(\<And>rq. \<not> P (RunInstances rq)) \<Longrightarrow>
   filter P (fst (launch_all sv it ud tg sn sg k amis acc)) = []"
proof (induction amis arbitrary: k acc)
  case Nil
  then show ?case by simp
next
  case (Cons a amis)
  then show ?case
    by (simp add: Let_def fst_bind_run call_def split: sum.split)
qed

lemma start_ec2_intances_trace:
  "fst (start_ec2_intances sv it amis ud tg sn sg) =
     fst (launch_all sv it ud tg sn sg 0 amis []) @
     (case snd (start_ec2_intances sv it amis ud tg sn sg) of
        Return ids \<Rightarrow> [Print ids] | Raise e \<Rightarrow> [] | Diverge \<Rightarrow> [])"
  by (simp add: start_ec2_intances_def fst_bind_run snd_bind_run split: result.split sum.split)

lemma start_ec2_intances_filter:
  "(\<And>rq. \<not> P (RunInstances rq)) \<Longrightarrow> (\<And>ids. \<not> P (Print ids)) \<Longrightarrow>
   filter P (fst (start_ec2_intances sv it amis ud tg sn sg)) = []"
  by (simp add: start_ec2_intances_trace launch_all_filter split: result.split)


section \<open>The poll loop\<close>

declare await_loop.simps [simp del]

text \<open>
  The records of other dates are passed over: a poll finds a terminal state exactly
  when a record created on \<open>day\<close> is in one.
\<close>

lemma scan_runs_date_filter:
  "\<forall>x\<in>set records. createdAt x \<noteq> None \<Longrightarrow>
   scan_runs day records =
     Inr (\<exists>x\<in>set records. (\<exists>c. createdAt x = Some c \<and> dt_date c = day) \<and>
            terminal_state (state x))"
  by (induction records) auto

lemma scan_runs_other_dates:
  "\<forall>x\<in>set records. \<exists>c. createdAt x = Some c \<and> dt_date c \<noteq> day \<Longrightarrow>
   scan_runs day records = Inr False"
  by (induction records) auto

lemma observedE:
  "observed sv a d k = Inr b \<Longrightarrow>
   \<exists>response records. describe_assessment_runs sv k [a] = Inr response \<and>
     assessmentRuns response = Some records \<and> scan_runs d records = Inr b"
  by (auto simp: observed_def split: sum.splits option.splits)

lemma await_loop_completed:
  assumes "observed sv a d k = Inr True"
  shows "await_loop sv a d k tw =
           ([DescribeAssessmentRuns [a], Log INFO ''Inspector scan completed'' []], Return True)"
proof -
  from observedE [OF assms(1)] obtain response records where
    "describe_assessment_runs sv k [a] = Inr response"
    "assessmentRuns response = Some records" "scan_runs d records = Inr True"
    by blast
  with assms show ?thesis
    by (subst await_loop.simps) (simp add: truth_of_filter_object_def)
qed

lemma await_loop_exhausted:
  assumes "observed sv a d k = Inr False" and "max_total_wait \<le> tw + sleep_time"
  shows "await_loop sv a d k tw =
           ([DescribeAssessmentRuns [a],
             Log INFO ''Inspector scan not completed yet. Waiting {} seconds.'' [ArgNat sleep_time],
             Sleep sleep_time,
             Log ERROR ''Exceeded inspector max wait'' []], Return False)"
proof -
  from observedE [OF assms(1)] obtain response records where
    "describe_assessment_runs sv k [a] = Inr response"
    "assessmentRuns response = Some records" "scan_runs d records = Inr False"
    by blast
  with assms show ?thesis
    by (subst await_loop.simps) (simp add: truth_of_filter_object_def)
qed

lemma await_loop_waiting:
  assumes "observed sv a d k = Inr False" and "tw + sleep_time < max_total_wait"
  shows "await_loop sv a d k tw =
           ([DescribeAssessmentRuns [a],
             Log INFO ''Inspector scan not completed yet. Waiting {} seconds.'' [ArgNat sleep_time],
             Sleep sleep_time] @ fst (await_loop sv a d (Suc k) (tw + sleep_time)),
            snd (await_loop sv a d (Suc k) (tw + sleep_time)))"
proof -
  from observedE [OF assms(1)] obtain response records where
    "describe_assessment_runs sv k [a] = Inr response"
    "assessmentRuns response = Some records" "scan_runs d records = Inr False"
    by blast
  with assms show ?thesis
    by (subst await_loop.simps) (simp add: truth_of_filter_object_def)
qed

lemma await_loop_skip:
  assumes "\<forall>i<j. observed sv a d (k + i) = Inr False"
    and "tw + j * sleep_time < max_total_wait"
  shows "filter is_poll (fst (await_loop sv a d k tw)) =
           replicate j (DescribeAssessmentRuns [a]) @
           filter is_poll (fst (await_loop sv a d (k + j) (tw + j * sleep_time))) \<and>
         snd (await_loop sv a d k tw) = snd (await_loop sv a d (k + j) (tw + j * sleep_time))"
  using assms
proof (induction j arbitrary: k tw)
  case 0
  then show ?case by simp
next
  case (Suc j)
  from Suc.prems(1) have first: "observed sv a d k = Inr False"
    by (metis add.right_neutral zero_less_Suc)
  from Suc.prems(2) have budget: "tw + sleep_time < max_total_wait"
    by simp
  have rest: "\<forall>i<j. observed sv a d (Suc k + i) = Inr False"
    using Suc.prems(1) by (metis add_Suc_shift Suc_less_eq)
  have budget': "(tw + sleep_time) + j * sleep_time < max_total_wait"
    using Suc.prems(2) by (simp add: add.commute add.left_commute)
  note ih = Suc.IH [OF rest budget']
  have idx: "Suc k + j = k + Suc j" "tw + sleep_time + j * sleep_time = tw + Suc j * sleep_time"
    by simp_all
  show ?case
    using ih unfolding idx
    by (simp add: await_loop_waiting [OF first budget])
qed

lemma await_completes:
  assumes "k * sleep_time < max_total_wait"
    and "\<forall>i<k. observed sv a d i = Inr False"
    and "observed sv a d k = Inr True"
  shows "snd (await_inspector_results sv a d) = Return True"
    and "length (filter is_poll (fst (await_inspector_results sv a d))) = k + 1"
  using await_loop_skip [of k sv a d 0 0] assms
  by (simp_all add: await_inspector_results_def await_loop_completed)

lemma await_never:
  assumes "\<forall>i<121. observed sv a d i = Inr False"
  shows "snd (await_inspector_results sv a d) = Return False"
    and "length (filter is_poll (fst (await_inspector_results sv a d))) = 121"
proof -
  have pre: "\<forall>i<120. observed sv a d (0 + i) = Inr False"
    using assms by simp
  have under: "0 + 120 * sleep_time < max_total_wait"
    by (simp add: sleep_time_def max_total_wait_def)
  have skip:
    "filter is_poll (fst (await_loop sv a d 0 0)) =
       replicate 120 (DescribeAssessmentRuns [a]) @
       filter is_poll (fst (await_loop sv a d 120 (120 * sleep_time)))"
    "snd (await_loop sv a d 0 0) = snd (await_loop sv a d 120 (120 * sleep_time))"
    using await_loop_skip [OF pre under] by simp_all
  have last: "observed sv a d 120 = Inr False"
    using assms by simp
  have over: "max_total_wait \<le> 120 * sleep_time + sleep_time"
    by (simp add: sleep_time_def max_total_wait_def)
  note fin = await_loop_exhausted [OF last over]
  show "snd (await_inspector_results sv a d) = Return False"
    by (simp add: await_inspector_results_def skip(2) fin)
  show "length (filter is_poll (fst (await_inspector_results sv a d))) = 121"
    by (simp add: await_inspector_results_def skip(1) fin)
qed

lemma await_loop_filter:
  assumes "\<And>a. \<not> P (DescribeAssessmentRuns a)" and "\<And>n. \<not> P (Sleep n)"
    and "\<And>l m as. l \<noteq> FATAL \<Longrightarrow> \<not> P (Log l m as)"
  shows "filter P (fst (await_loop sv a d k tw)) = []"
proof (induction sv a d k tw rule: await_loop.induct)
  case (1 sv a d k tw)
  show ?case
    apply (subst await_loop.simps)
    using 1 assms
    apply (simp add: fst_bind_run truth_of_filter_object_def call_def
                split: sum.split option.split bool.split)
    done
qed

lemma observed_completing_after:
  "observed (completing_after k) a scan_day i = Inr (\<not> i < k)"
  by (simp add: observed_def completing_after_def quiet_services_def run_record_def
        terminal_state_def)

lemma observed_quiet: "observed quiet_services a d i = Inr False"
  by (simp add: observed_def quiet_services_def)

text \<open>
  What a poll finds, from the records the service returns: with every record dated,
  the poll finds a terminal state exactly when a record created on the day is in state
  COMPLETED or COMPLETED_WITH_ERRORS.
\<close>

lemma observed_records:
  assumes "describe_assessment_runs sv i [a] = Inr \<lparr>assessmentRuns = Some records\<rparr>"
    and "\<forall>x\<in>set records. createdAt x \<noteq> None"
  shows "observed sv a d i =
           Inr (\<exists>x\<in>set records. \<exists>c. createdAt x = Some c \<and> dt_date c = d \<and>
                  (state x = Some ''COMPLETED'' \<or> state x = Some ''COMPLETED_WITH_ERRORS''))"
  using assms scan_runs_date_filter [of records d]
  by (auto simp: observed_def terminal_state_def)

lemma waiting_rounds_filter:
  "filter is_poll (concat (replicate n (waiting_round a))) = replicate n (DescribeAssessmentRuns [a])"
  "filter is_sleep (concat (replicate n (waiting_round a))) = replicate n (Sleep 60)"
  by (induction n) (simp_all add: waiting_round_def)

lemma poll_times_waiting_rounds:
  "poll_times (concat (replicate n (waiting_round a)) @ es) t =
     map (\<lambda>i. t + i * 60) [0 ..< n] @ poll_times es (t + n * 60)"
proof (induction n arbitrary: t)
  case 0
  then show ?case by simp
next
  case (Suc n)
  have "map (\<lambda>i. t + i * 60) [0 ..< Suc n] = t # map (\<lambda>i. t + 60 + i * 60) [0 ..< n]"
    by (simp add: upt_conv_Cons map_Suc_upt [symmetric] del: upt_Suc)
  with Suc [of "t + 60"] show ?case
    by (simp add: waiting_round_def add.assoc del: upt_Suc)
qed

lemma await_loop_rounds:
  assumes "\<forall>i<j. observed sv a d (k + i) = Inr False"
    and "tw + j * sleep_time < max_total_wait"
  shows "await_loop sv a d k tw =
           (concat (replicate j (waiting_round a)) @
              fst (await_loop sv a d (k + j) (tw + j * sleep_time)),
            snd (await_loop sv a d (k + j) (tw + j * sleep_time)))"
  using assms
proof (induction j arbitrary: k tw)
  case 0
  then show ?case by simp
next
  case (Suc j)
  from Suc.prems(1) have first: "observed sv a d k = Inr False"
    by (metis add.right_neutral zero_less_Suc)
  from Suc.prems(2) have budget: "tw + sleep_time < max_total_wait"
    by simp
  have rest: "\<forall>i<j. observed sv a d (Suc k + i) = Inr False"
    using Suc.prems(1) by (metis add_Suc_shift Suc_less_eq)
  have budget': "(tw + sleep_time) + j * sleep_time < max_total_wait"
    using Suc.prems(2) by (simp add: add.commute add.left_commute)
  note ih = Suc.IH [OF rest budget']
  have idx: "Suc k + j = k + Suc j" "tw + sleep_time + j * sleep_time = tw + Suc j * sleep_time"
    by simp_all
  show ?case
    by (subst await_loop_waiting [OF first budget], subst ih, subst ih)
       (simp add: idx waiting_round_def sleep_time_def add.assoc)
qed

lemma await_trace_completes:
  assumes "k * sleep_time < max_total_wait"
    and "\<forall>i<k. observed sv a d i = Inr False"
    and "observed sv a d k = Inr True"
  shows "await_inspector_results sv a d =
           (concat (replicate k (waiting_round a)) @
              [DescribeAssessmentRuns [a], Log INFO ''Inspector scan completed'' []],
            Return True)"
  using await_loop_rounds [of k sv a d 0 0] assms
  by (simp add: await_inspector_results_def await_loop_completed)

lemma await_trace_never:
  assumes "\<forall>i<121. observed sv a d i = Inr False"
  shows "await_inspector_results sv a d =
           (concat (replicate 121 (waiting_round a)) @
              [Log ERROR ''Exceeded inspector max wait'' []],
            Return False)"
proof -
  have pre: "\<forall>i<120. observed sv a d (0 + i) = Inr False"
    using assms by simp
  have under: "0 + 120 * sleep_time < max_total_wait"
    by (simp add: sleep_time_def max_total_wait_def)
  have last: "observed sv a d 120 = Inr False"
    using assms by simp
  have over: "max_total_wait \<le> 120 * sleep_time + sleep_time"
    by (simp add: sleep_time_def max_total_wait_def)
  have rounds: "await_loop sv a d 0 0 =
      (concat (replicate 120 (waiting_round a)) @ fst (await_loop sv a d 120 7200),
       snd (await_loop sv a d 120 7200))"
    using await_loop_rounds [OF pre under] by (simp add: sleep_time_def)
  have fin: "await_loop sv a d 120 7200 =
      (waiting_round a @ [Log ERROR ''Exceeded inspector max wait'' []], Return False)"
    using await_loop_exhausted [OF last over] by (simp add: sleep_time_def waiting_round_def)
  have split: "replicate 121 (waiting_round a) = replicate 120 (waiting_round a) @ [waiting_round a]"
    by (metis replicate_append_same replicate_Suc eval_nat_numeral(3))
  show ?thesis
    by (simp add: await_inspector_results_def rounds fin split)
qed

lemma completing_after_service:
  "i \<le> k \<Longrightarrow>
   \<exists>records. describe_assessment_runs (completing_after k) i [a] =
       Inr \<lparr>assessmentRuns = Some records\<rparr> \<and>
     (\<forall>x\<in>set records. createdAt x \<noteq> None) \<and>
     ((\<exists>x\<in>set records. \<exists>c. createdAt x = Some c \<and> dt_date c = scan_day \<and>
         (state x = Some ''COMPLETED'' \<or> state x = Some ''COMPLETED_WITH_ERRORS'')) = (i = k))"
  by (auto simp: completing_after_def quiet_services_def run_record_def)

lemma quiet_service:
  "\<exists>records. describe_assessment_runs quiet_services i [a] = Inr \<lparr>assessmentRuns = Some records\<rparr> \<and>
     (\<forall>x\<in>set records. createdAt x \<noteq> None) \<and>
     \<not> (\<exists>x\<in>set records. \<exists>c. createdAt x = Some c \<and> dt_date c = d \<and>
         (state x = Some ''COMPLETED'' \<or> state x = Some ''COMPLETED_WITH_ERRORS''))"
  by (simp add: quiet_services_def)

text \<open>
  C2, as amended. Request number \<open>i\<close> of the poll loop (counted from 0) is made when
  \<open>i\<close> intervals of 60 have been slept, the first one before any sleep. Let the service
  answer the requests 0, ..., \<open>k\<close> with dated records, let no record created on the
  day be in state COMPLETED or COMPLETED_WITH_ERRORS in the answers 0, ..., \<open>k - 1\<close> and
  let one be so in answer \<open>k\<close>, that is after \<open>k\<close> intervals, with \<open>k * 60 < 7260\<close>.
  Then \<^verbatim>\<open>await_inspector_results\<close> runs \<open>k\<close> rounds of poll, log line and
  \<^verbatim>\<open>time.sleep(60)\<close> and a last poll: it returns True after exactly \<open>k + 1\<close> polls, made
  at the times 0, 60, ..., \<open>k * 60\<close>, and \<open>k\<close> sleeps. If no record of the day is in a
  terminal state in the answers 0, ..., 120, it runs 121 such rounds, logs the error and
  returns False: exactly 121 polls, at the times 0, 60, ..., 7200, and no poll after
  the last sleep.
\<close>

theorem await_inspector_results_polls:
  "(k * 60 < 7260 \<and>
    (\<forall>i\<le>k. \<exists>records.
        describe_assessment_runs sv i [a] = Inr \<lparr>assessmentRuns = Some records\<rparr> \<and>
        (\<forall>x\<in>set records. createdAt x \<noteq> None) \<and>
        ((\<exists>x\<in>set records. \<exists>c. createdAt x = Some c \<and> dt_date c = d \<and>
            (state x = Some ''COMPLETED'' \<or> state x = Some ''COMPLETED_WITH_ERRORS'')) = (i = k))) \<longrightarrow>
      await_inspector_results sv a d =
        (concat (replicate k
           [DescribeAssessmentRuns [a],
            Log INFO ''Inspector scan not completed yet. Waiting {} seconds.'' [ArgNat 60],
            Sleep 60]) @
         [DescribeAssessmentRuns [a], Log INFO ''Inspector scan completed'' []],
         Return True) \<and>
      poll_times (fst (await_inspector_results sv a d)) 0 = map (\<lambda>i. i * 60) [0 ..< k + 1] \<and>
      length (filter is_poll (fst (await_inspector_results sv a d))) = k + 1 \<and>
      filter is_sleep (fst (await_inspector_results sv a d)) = replicate k (Sleep 60)) \<and>
   ((\<forall>i<121. \<exists>records.
        describe_assessment_runs sv i [a] = Inr \<lparr>assessmentRuns = Some records\<rparr> \<and>
        (\<forall>x\<in>set records. createdAt x \<noteq> None) \<and>
        \<not> (\<exists>x\<in>set records. \<exists>c. createdAt x = Some c \<and> dt_date c = d \<and>
            (state x = Some ''COMPLETED'' \<or> state x = Some ''COMPLETED_WITH_ERRORS''))) \<longrightarrow>
      await_inspector_results sv a d =
        (concat (replicate 121
           [DescribeAssessmentRuns [a],
            Log INFO ''Inspector scan not completed yet. Waiting {} seconds.'' [ArgNat 60],
            Sleep 60]) @
         [Log ERROR ''Exceeded inspector max wait'' []],
         Return False) \<and>
      poll_times (fst (await_inspector_results sv a d)) 0 = map (\<lambda>i. i * 60) [0 ..< 121] \<and>
      length (filter is_poll (fst (await_inspector_results sv a d))) = 121 \<and>
      filter is_sleep (fst (await_inspector_results sv a d)) = replicate 121 (Sleep 60))"
proof (intro conjI impI)
  assume h: "k * 60 < 7260 \<and>
    (\<forall>i\<le>k. \<exists>records.
        describe_assessment_runs sv i [a] = Inr \<lparr>assessmentRuns = Some records\<rparr> \<and>
        (\<forall>x\<in>set records. createdAt x \<noteq> None) \<and>
        ((\<exists>x\<in>set records. \<exists>c. createdAt x = Some c \<and> dt_date c = d \<and>
            (state x = Some ''COMPLETED'' \<or> state x = Some ''COMPLETED_WITH_ERRORS'')) = (i = k)))"
  have obs: "observed sv a d i = Inr (i = k)" if "i \<le> k" for i
  proof -
    from h that obtain records where
      "describe_assessment_runs sv i [a] = Inr \<lparr>assessmentRuns = Some records\<rparr>"
      "\<forall>x\<in>set records. createdAt x \<noteq> None"
      "(\<exists>x\<in>set records. \<exists>c. createdAt x = Some c \<and> dt_date c = d \<and>
          (state x = Some ''COMPLETED'' \<or> state x = Some ''COMPLETED_WITH_ERRORS'')) = (i = k)"
      by blast
    with observed_records [of sv i a records d] show ?thesis
      by simp
  qed
  have before: "\<forall>i<k. observed sv a d i = Inr False"
    using obs by simp
  have at: "observed sv a d k = Inr True"
    using obs [of k] by simp
  have budget: "k * sleep_time < max_total_wait"
    using h by (simp add: sleep_time_def max_total_wait_def)
  note tr = await_trace_completes [OF budget before at]
  show "await_inspector_results sv a d =
        (concat (replicate k
           [DescribeAssessmentRuns [a],
            Log INFO ''Inspector scan not completed yet. Waiting {} seconds.'' [ArgNat 60],
            Sleep 60]) @
         [DescribeAssessmentRuns [a], Log INFO ''Inspector scan completed'' []],
         Return True)"
    using tr by (simp add: waiting_round_def)
  show "poll_times (fst (await_inspector_results sv a d)) 0 = map (\<lambda>i. i * 60) [0 ..< k + 1]"
    by (simp add: tr poll_times_waiting_rounds)
  show "length (filter is_poll (fst (await_inspector_results sv a d))) = k + 1"
    by (simp add: tr waiting_rounds_filter)
  show "filter is_sleep (fst (await_inspector_results sv a d)) = replicate k (Sleep 60)"
    by (simp add: tr waiting_rounds_filter)
next
  assume h: "\<forall>i<121. \<exists>records.
        describe_assessment_runs sv i [a] = Inr \<lparr>assessmentRuns = Some records\<rparr> \<and>
        (\<forall>x\<in>set records. createdAt x \<noteq> None) \<and>
        \<not> (\<exists>x\<in>set records. \<exists>c. createdAt x = Some c \<and> dt_date c = d \<and>
            (state x = Some ''COMPLETED'' \<or> state x = Some ''COMPLETED_WITH_ERRORS''))"
  have never: "\<forall>i<121. observed sv a d i = Inr False"
  proof (intro allI impI)
    fix i :: nat
    assume "i < 121"
    with h obtain records where
      "describe_assessment_runs sv i [a] = Inr \<lparr>assessmentRuns = Some records\<rparr>"
      "\<forall>x\<in>set records. createdAt x \<noteq> None"
      "\<not> (\<exists>x\<in>set records. \<exists>c. createdAt x = Some c \<and> dt_date c = d \<and>
          (state x = Some ''COMPLETED'' \<or> state x = Some ''COMPLETED_WITH_ERRORS''))"
      by blast
    with observed_records [of sv i a records d] show "observed sv a d i = Inr False"
      by simp
  qed
  note tr = await_trace_never [OF never]
  show "await_inspector_results sv a d =
        (concat (replicate 121
           [DescribeAssessmentRuns [a],
            Log INFO ''Inspector scan not completed yet. Waiting {} seconds.'' [ArgNat 60],
            Sleep 60]) @
         [Log ERROR ''Exceeded inspector max wait'' []],
         Return False)"
    using tr by (simp add: waiting_round_def)
  show "poll_times (fst (await_inspector_results sv a d)) 0 = map (\<lambda>i. i * 60) [0 ..< 121]"
    by (simp add: tr poll_times_waiting_rounds del: upt_Suc)
  show "length (filter is_poll (fst (await_inspector_results sv a d))) = 121"
    by (simp add: tr waiting_rounds_filter)
  show "filter is_sleep (fst (await_inspector_results sv a d)) = replicate 121 (Sleep 60)"
    by (simp add: tr waiting_rounds_filter)
qed

theorem await_inspector_results_polls_witness:
  "await_inspector_results (completing_after 2) (Some ''arn:run'') scan_day =
     ([DescribeAssessmentRuns [Some ''arn:run''],
       Log INFO ''Inspector scan not completed yet. Waiting {} seconds.'' [ArgNat 60], Sleep 60,
       DescribeAssessmentRuns [Some ''arn:run''],
       Log INFO ''Inspector scan not completed yet. Waiting {} seconds.'' [ArgNat 60], Sleep 60,
       DescribeAssessmentRuns [Some ''arn:run''], Log INFO ''Inspector scan completed'' []],
      Return True) \<and>
   poll_times (fst (await_inspector_results (completing_after 2) (Some ''arn:run'') scan_day)) 0 =
     [0, 60, 120] \<and>
   snd (await_inspector_results quiet_services (Some ''arn:run'') scan_day) = Return False \<and>
   length (filter is_poll
     (fst (await_inspector_results quiet_services (Some ''arn:run'') scan_day))) = 121 \<and>
   filter is_sleep (fst (await_inspector_results quiet_services (Some ''arn:run'') scan_day)) =
     replicate 121 (Sleep 60)"
proof -
  have two: "(2::nat) * 60 < 7260 \<and>
    (\<forall>i\<le>2. \<exists>records.
        describe_assessment_runs (completing_after 2) i [Some ''arn:run''] =
          Inr \<lparr>assessmentRuns = Some records\<rparr> \<and>
        (\<forall>x\<in>set records. createdAt x \<noteq> None) \<and>
        ((\<exists>x\<in>set records. \<exists>c. createdAt x = Some c \<and> dt_date c = scan_day \<and>
            (state x = Some ''COMPLETED'' \<or> state x = Some ''COMPLETED_WITH_ERRORS'')) = (i = 2)))"
    using completing_after_service [of _ 2 "Some ''arn:run''"] by simp
  have none: "\<forall>i<121. \<exists>records.
        describe_assessment_runs quiet_services i [Some ''arn:run''] =
          Inr \<lparr>assessmentRuns = Some records\<rparr> \<and>
        (\<forall>x\<in>set records. createdAt x \<noteq> None) \<and>
        \<not> (\<exists>x\<in>set records. \<exists>c. createdAt x = Some c \<and> dt_date c = scan_day \<and>
            (state x = Some ''COMPLETED'' \<or> state x = Some ''COMPLETED_WITH_ERRORS''))"
    using quiet_service [of _ "Some ''arn:run''" scan_day] by simp
  from await_inspector_results_polls [of 2 "completing_after 2" "Some ''arn:run''" scan_day] two
  have a: "await_inspector_results (completing_after 2) (Some ''arn:run'') scan_day =
        (concat (replicate 2
           [DescribeAssessmentRuns [Some ''arn:run''],
            Log INFO ''Inspector scan not completed yet. Waiting {} seconds.'' [ArgNat 60],
            Sleep 60]) @
         [DescribeAssessmentRuns [Some ''arn:run''], Log INFO ''Inspector scan completed'' []],
         Return True)"
    by blast
  from await_inspector_results_polls [of 2 quiet_services "Some ''arn:run''" scan_day] none
  have b: "await_inspector_results quiet_services (Some ''arn:run'') scan_day =
        (concat (replicate 121
           [DescribeAssessmentRuns [Some ''arn:run''],
            Log INFO ''Inspector scan not completed yet. Waiting {} seconds.'' [ArgNat 60],
            Sleep 60]) @
         [Log ERROR ''Exceeded inspector max wait'' []],
         Return False)"
    "length (filter is_poll
       (fst (await_inspector_results quiet_services (Some ''arn:run'') scan_day))) = 121"
    "filter is_sleep (fst (await_inspector_results quiet_services (Some ''arn:run'') scan_day)) =
       replicate 121 (Sleep 60)"
    by blast+
  have a': "await_inspector_results (completing_after 2) (Some ''arn:run'') scan_day =
     ([DescribeAssessmentRuns [Some ''arn:run''],
       Log INFO ''Inspector scan not completed yet. Waiting {} seconds.'' [ArgNat 60], Sleep 60,
       DescribeAssessmentRuns [Some ''arn:run''],
       Log INFO ''Inspector scan not completed yet. Waiting {} seconds.'' [ArgNat 60], Sleep 60,
       DescribeAssessmentRuns [Some ''arn:run''], Log INFO ''Inspector scan completed'' []],
      Return True)"
    unfolding a by (simp add: numeral_2_eq_2)
  show ?thesis
    unfolding a' using b(2,3) by (simp add: b(1))
qed

text \<open>
  C2 as stated fails. The job of the service below is in state COLLECTING_DATA in the
  answers given after 0 and after 1 interval and COMPLETED in the answer given after 2
  intervals (\<open>2 * 60 < 7260\<close>): the run sleeps twice and polls three times, at the times
  0, 60 and 120, not twice. A job that is COMPLETED from the start (0 intervals) costs
  one poll, not none.
\<close>

theorem await_inspector_results_polls_counterexample:
  "(2::nat) * 60 < 7260 \<and>
   describe_assessment_runs (completing_after 2) 0 [Some ''arn:run''] =
     Inr \<lparr>assessmentRuns = Some [run_record scan_day ''COLLECTING_DATA'']\<rparr> \<and>
   describe_assessment_runs (completing_after 2) 1 [Some ''arn:run''] =
     Inr \<lparr>assessmentRuns = Some [run_record scan_day ''COLLECTING_DATA'']\<rparr> \<and>
   describe_assessment_runs (completing_after 2) 2 [Some ''arn:run''] =
     Inr \<lparr>assessmentRuns = Some [run_record scan_day ''COMPLETED'']\<rparr> \<and>
   await_inspector_results (completing_after 2) (Some ''arn:run'') scan_day =
     ([DescribeAssessmentRuns [Some ''arn:run''],
       Log INFO ''Inspector scan not completed yet. Waiting {} seconds.'' [ArgNat 60], Sleep 60,
       DescribeAssessmentRuns [Some ''arn:run''],
       Log INFO ''Inspector scan not completed yet. Waiting {} seconds.'' [ArgNat 60], Sleep 60,
       DescribeAssessmentRuns [Some ''arn:run''], Log INFO ''Inspector scan completed'' []],
      Return True) \<and>
   poll_times (fst (await_inspector_results (completing_after 2) (Some ''arn:run'') scan_day)) 0 =
     [0, 60, 120] \<and>
   length (filter is_poll
     (fst (await_inspector_results (completing_after 2) (Some ''arn:run'') scan_day))) \<noteq> 2 \<and>
   describe_assessment_runs (completing_after 0) 0 [Some ''arn:run''] =
     Inr \<lparr>assessmentRuns = Some [run_record scan_day ''COMPLETED'']\<rparr> \<and>
   await_inspector_results (completing_after 0) (Some ''arn:run'') scan_day =
     ([DescribeAssessmentRuns [Some ''arn:run''], Log INFO ''Inspector scan completed'' []],
      Return True) \<and>
   length (filter is_poll
     (fst (await_inspector_results (completing_after 0) (Some ''arn:run'') scan_day))) \<noteq> 0"
proof -
  have a: "await_inspector_results (completing_after 2) (Some ''arn:run'') scan_day =
     ([DescribeAssessmentRuns [Some ''arn:run''],
       Log INFO ''Inspector scan not completed yet. Waiting {} seconds.'' [ArgNat 60], Sleep 60,
       DescribeAssessmentRuns [Some ''arn:run''],
       Log INFO ''Inspector scan not completed yet. Waiting {} seconds.'' [ArgNat 60], Sleep 60,
       DescribeAssessmentRuns [Some ''arn:run''], Log INFO ''Inspector scan completed'' []],
      Return True)"
    using await_trace_completes [of 2 "completing_after 2" "Some ''arn:run''" scan_day]
    by (simp add: observed_completing_after sleep_time_def max_total_wait_def waiting_round_def
          numeral_2_eq_2)
  have b: "await_inspector_results (completing_after 0) (Some ''arn:run'') scan_day =
     ([DescribeAssessmentRuns [Some ''arn:run''], Log INFO ''Inspector scan completed'' []],
      Return True)"
    using await_trace_completes [of 0 "completing_after 0" "Some ''arn:run''" scan_day]
    by (simp add: observed_completing_after sleep_time_def max_total_wait_def)
  show ?thesis
    unfolding a b by (simp add: completing_after_def)
qed

section \<open>The pagination loop and the entry point\<close>

lemma await_filter:
  assumes "\<And>a. \<not> P (DescribeAssessmentRuns a)" and "\<And>n. \<not> P (Sleep n)"
    and "\<And>l m as. l \<noteq> FATAL \<Longrightarrow> \<not> P (Log l m as)"
  shows "filter P (fst (await_inspector_results sv a d)) = []"
  using assms by (simp add: await_inspector_results_def await_loop_filter)

lemma retrieve_loop_filter:
  "(\<And>a n f t. \<not> P (ListFindings a n f t)) \<Longrightarrow>
   filter P (fst (retrieve_loop fuel sv a flt k tok acc)) = []"
proof (induction fuel arbitrary: k tok acc)
  case 0
  then show ?case by simp
next
  case (Suc fuel)
  then show ?case
    by (simp add: Let_def fst_bind_run call_def split: sum.split option.split)
qed

lemma retrieve_filter:
  "(\<And>a n f t. \<not> P (ListFindings a n f t)) \<Longrightarrow>
   filter P (fst (retrieve_finding_arns fuel sv a flt)) = []"
  by (simp add: retrieve_finding_arns_def retrieve_loop_filter)

lemma retrieve_loop_only:
  "filter is_list_findings (fst (retrieve_loop fuel sv a flt k tok acc)) =
   fst (retrieve_loop fuel sv a flt k tok acc)"
proof (induction fuel arbitrary: k tok acc)
  case 0
  then show ?case by simp
next
  case (Suc fuel)
  then show ?case
    by (simp add: Let_def fst_bind_run call_def split: sum.split option.split)
qed

lemma retrieve_first:
  "\<exists>rest. fst (retrieve_finding_arns (Suc n) sv a flt) = ListFindings [a] 500 flt None # rest"
  by (simp add: retrieve_finding_arns_def truthy_def fst_bind_run)

lemma fst_finally_run:
  "fst (finally_run b h) =
     fst b @ (case snd b of Diverge \<Rightarrow> [] | Return v \<Rightarrow> fst h | Raise e \<Rightarrow> fst h)"
  by (cases b; cases h; cases "snd b"; cases "snd h") (auto simp: finally_run_def)

lemma snd_finally_run_Diverge:
  "snd (finally_run b h) \<noteq> Diverge \<Longrightarrow> snd b \<noteq> Diverge"
  by (cases b; cases h; cases "snd b"; cases "snd h") (auto simp: finally_run_def)

lemma finally_block_trace:
  "fst (finally_block sv ids) = [Log INFO ''Tearing down EC2 instances'' [], TerminateInstances ids]"
  by (simp add: finally_block_def terminate_ec2_instances_def call_def)

lemma try_block_filter:
  assumes "\<And>ids. \<not> P (WaiterWait ids)" and "\<And>t n. \<not> P (StartAssessmentRun t n)"
    and "\<And>a. \<not> P (DescribeAssessmentRuns a)" and "\<And>n. \<not> P (Sleep n)"
    and "\<And>l m as. l \<noteq> FATAL \<Longrightarrow> \<not> P (Log l m as)"
    and "\<And>a n f t. \<not> P (ListFindings a n f t)" and "\<And>t m. \<not> P (Publish t m)"
  shows "filter P (fst (try_block fuel en sv ids)) = []"
  using assms
  by (simp add: try_block_def fst_bind_run snd_bind_run start_inspector_scan_def
        await_filter retrieve_filter publish_finding_data_def call_def
        split: result.split sum.split)

lemma try_block_trace:
  assumes "waiter_wait sv ids = Inr u"
    and "start_assessment_run sv (INSPECTOR_ASSESSMENT_TEMPLATE en)
           (assessmentRunName (today_at_scan_start en)) = Inr r"
    and "snd (await_inspector_results sv (assessmentRunArn r) (today_at_await en)) = Return b"
  shows "fst (try_block fuel en sv ids) =
     [Log INFO ''Started instances {}'' [ArgIds ids], Log INFO ''Awaiting {}'' [ArgIds ids],
      WaiterWait ids, Log INFO ''Starting Inspector run'' [],
      StartAssessmentRun (INSPECTOR_ASSESSMENT_TEMPLATE en)
        (assessmentRunName (today_at_scan_start en)),
      Log INFO ''Awaiting Inspector results'' []] @
     fst (await_inspector_results sv (assessmentRunArn r) (today_at_await en)) @
     [Log INFO ''Retrieving findings'' []] @
     fst (retrieve_finding_arns fuel sv (assessmentRunArn r) finding_filter) @
     (case snd (retrieve_finding_arns fuel sv (assessmentRunArn r) finding_filter) of
        Return arns \<Rightarrow>
          if arns \<noteq> [] then
            [Log INFO ''Publishing amount of high findings'' [],
             Publish (SNS_ALERT_TOPIC_ARN en) (alert_message (length arns))]
          else [Log INFO ''No findings found for assessment run {}'' [ArgArn (assessmentRunArn r)]]
      | Raise e \<Rightarrow> []
      | Diverge \<Rightarrow> [])"
  using assms
  by (simp add: try_block_def fst_bind_run snd_bind_run start_inspector_scan_def
        publish_finding_data_def split: result.split)

lemma try_block_publish:
  "filter is_publish (fst (try_block fuel en sv ids)) = [] \<or>
   (\<exists>a arns. snd (retrieve_finding_arns fuel sv a finding_filter) = Return arns \<and> arns \<noteq> [] \<and>
      filter is_publish (fst (try_block fuel en sv ids)) =
        [Publish (SNS_ALERT_TOPIC_ARN en) (alert_message (length arns))])"
proof (cases "waiter_wait sv ids")
  case (Inl e)
  then show ?thesis
    by (simp add: try_block_def)
next
  case wait: (Inr u)
  show ?thesis
  proof (cases "start_assessment_run sv (INSPECTOR_ASSESSMENT_TEMPLATE en)
                  (assessmentRunName (today_at_scan_start en))")
    case (Inl e)
    with wait show ?thesis
      by (simp add: try_block_def start_inspector_scan_def)
  next
    case start: (Inr r)
    show ?thesis
    proof (cases "snd (await_inspector_results sv (assessmentRunArn r) (today_at_await en))")
      case (Return b)
      note tr = try_block_trace [OF wait start Return]
      show ?thesis
      proof (cases "snd (retrieve_finding_arns fuel sv (assessmentRunArn r) finding_filter)")
        case (Return arns)
        then show ?thesis
          by (cases "arns = []") (auto simp: tr await_filter retrieve_filter)
      next
        case (Raise e)
        then show ?thesis
          by (simp add: tr await_filter retrieve_filter)
      next
        case Diverge
        then show ?thesis
          by (simp add: tr await_filter retrieve_filter)
      qed
    next
      case (Raise e)
      with wait start show ?thesis
        by (simp add: try_block_def start_inspector_scan_def fst_bind_run snd_bind_run await_filter)
    next
      case Diverge
      with wait start show ?thesis
        by (simp add: try_block_def start_inspector_scan_def fst_bind_run snd_bind_run await_filter)
    qed
  qed
qed

lemma main_trace:
  assumes "snd (fetch_amis sv) = Return amis" and "amis \<noteq> []"
    and "snd (start_ec2_intances sv instance_type amis user_data tags
               (INSTANCE_SUBNET_ID en) (INSTANCE_SECURITY_GROUP en)) = Return ids"
  shows "fst (main fuel en sv) =
     [Log INFO ''Fetching AMIs in use'' [], DescribeInstances,
      Log INFO ''Starting EC2 instances with AMIs: {}'' [ArgImages amis]] @
     fst (start_ec2_intances sv instance_type amis user_data tags
            (INSTANCE_SUBNET_ID en) (INSTANCE_SECURITY_GROUP en)) @
     fst (finally_run (try_block fuel en sv ids) (finally_block sv ids))"
  using assms
  by (simp add: main_def fst_bind_run snd_bind_run fetch_amis_trace)

lemma main_publish_from_try_block:
  "filter is_publish (fst (main fuel en sv)) = [] \<or>
   (\<exists>ids. filter is_publish (fst (main fuel en sv)) =
           filter is_publish (fst (try_block fuel en sv ids)))"
  by (simp add: main_def fst_bind_run snd_bind_run fetch_amis_trace start_ec2_intances_filter
        fst_finally_run finally_block_trace split: result.split) blast

lemma main_no_images:
  assumes "snd (fetch_amis sv) = Return []"
  shows "main fuel en sv =
           ([Log INFO ''Fetching AMIs in use'' [], DescribeInstances,
             Log FATAL ''No AMIs found'' []],
            Raise (SystemExit 1))"
  using assms
  by (simp add: main_def fst_bind_run snd_bind_run fetch_amis_trace prod_eq_iff)

lemma main_list_findings:
  assumes "snd (fetch_amis sv) = Return amis" and "amis \<noteq> []"
    and "snd (start_ec2_intances sv instance_type amis user_data tags
               (INSTANCE_SUBNET_ID en) (INSTANCE_SECURITY_GROUP en)) = Return ids"
    and "waiter_wait sv ids = Inr u"
    and "start_assessment_run sv (INSPECTOR_ASSESSMENT_TEMPLATE en)
           (assessmentRunName (today_at_scan_start en)) = Inr r"
    and "snd (await_inspector_results sv (assessmentRunArn r) (today_at_await en)) = Return b"
  shows "filter is_list_findings (fst (main fuel en sv)) =
           fst (retrieve_finding_arns fuel sv (assessmentRunArn r) finding_filter)"
  using assms(4-6)
  by (simp add: main_trace [OF assms(1-3)] start_ec2_intances_filter fst_finally_run
        try_block_trace [OF assms(4-6)] await_filter retrieve_finding_arns_def retrieve_loop_only
        finally_block_trace split: result.split)

lemma main_publish:
  assumes "snd (fetch_amis sv) = Return amis" and "amis \<noteq> []"
    and "snd (start_ec2_intances sv instance_type amis user_data tags
               (INSTANCE_SUBNET_ID en) (INSTANCE_SECURITY_GROUP en)) = Return ids"
    and "waiter_wait sv ids = Inr u"
    and "start_assessment_run sv (INSPECTOR_ASSESSMENT_TEMPLATE en)
           (assessmentRunName (today_at_scan_start en)) = Inr r"
    and "snd (await_inspector_results sv (assessmentRunArn r) (today_at_await en)) = Return b"
    and "snd (retrieve_finding_arns fuel sv (assessmentRunArn r) finding_filter) = Return arns"
  shows "filter is_publish (fst (main fuel en sv)) =
           (if arns = [] then []
            else [Publish (SNS_ALERT_TOPIC_ARN en) (alert_message (length arns))])"
  using assms(4-7)
  by (simp add: main_trace [OF assms(1-3)] start_ec2_intances_filter fst_finally_run
        try_block_trace [OF assms(4-6)] await_filter retrieve_filter
        finally_block_trace split: result.split)

text \<open>
  When provisioning has returned, every run that ends, however it ends, has called
  \<^verbatim>\<open>terminate_ec2_instances\<close> exactly once, with the identifiers provisioning returned.
\<close>

lemma teardown_after_provisioning:
  assumes "snd (fetch_amis sv) = Return amis" and "amis \<noteq> []"
    and "snd (start_ec2_intances sv instance_type amis user_data tags
               (INSTANCE_SUBNET_ID en) (INSTANCE_SECURITY_GROUP en)) = Return ids"
    and "snd (main fuel en sv) \<noteq> Diverge"
  shows "filter is_terminate (fst (main fuel en sv)) = [TerminateInstances ids]"
proof -
  have nd: "snd (try_block fuel en sv ids) \<noteq> Diverge"
    using assms
    by (auto simp: main_def snd_bind_run dest: snd_finally_run_Diverge)
  show ?thesis
    using nd
    by (simp add: main_trace [OF assms(1-3)] start_ec2_intances_filter
          fst_finally_run try_block_filter finally_block_trace split: result.split)
qed

subsection \<open>The simulated services, evaluated\<close>

lemma fetch_two_images:
  "describe_instances sv = two_images \<Longrightarrow>
   snd (fetch_amis sv) = Return [Some ''ami-1'', Some ''ami-2'']"
  by (simp add: fetch_amis_def two_images_def)

lemma launch_two_images:
  "run_instances sv = run_instances quiet_services \<Longrightarrow>
   snd (start_ec2_intances sv it [Some ''ami-1'', Some ''ami-2''] ud tg sn sg) =
     Return [''i-0'', ''i-1'']"
  by (simp add: start_ec2_intances_def quiet_services_def str_nat.simps digit_char_def)

lemma observed_end_to_end: "observed end_to_end a scan_day i = Inr (\<not> i < 1)"
  by (simp add: observed_def end_to_end_def completing_after_def quiet_services_def run_record_def
        terminal_state_def)

lemma observed_never_completing: "observed never_completing a d i = Inr False"
  by (simp add: observed_def never_completing_def quiet_services_def)

lemma await_end_to_end: "snd (await_inspector_results end_to_end a scan_day) = Return True"
  using await_completes(1) [of 1 end_to_end a scan_day]
  by (simp add: observed_end_to_end sleep_time_def max_total_wait_def)

lemma await_never_completing: "snd (await_inspector_results never_completing a d) = Return False"
  using await_never(1) [of never_completing a d]
  by (simp add: observed_never_completing)

lemma retrieve_end_to_end:
  "retrieve_finding_arns (Suc n) end_to_end a flt =
     ([ListFindings [a] 500 flt None], Return [''f-1'', ''f-2'', ''f-3''])"
  by (simp add: retrieve_finding_arns_def end_to_end_def truthy_def)

lemma retrieve_never_completing:
  "retrieve_finding_arns (Suc n) never_completing a flt = ([ListFindings [a] 500 flt None], Return [])"
  by (simp add: retrieve_finding_arns_def never_completing_def quiet_services_def truthy_def)

lemma end_to_end_fields:
  "describe_instances end_to_end = two_images"
  "run_instances end_to_end = run_instances quiet_services"
  "waiter_wait end_to_end ids = Inr ()"
  "start_assessment_run end_to_end t n = Inr \<lparr>assessmentRunArn = Some ''arn:run''\<rparr>"
  by (simp_all add: end_to_end_def completing_after_def quiet_services_def)

lemma never_completing_fields:
  "describe_instances never_completing = two_images"
  "run_instances never_completing = run_instances quiet_services"
  "waiter_wait never_completing ids = Inr ()"
  "start_assessment_run never_completing t n = Inr \<lparr>assessmentRunArn = Some ''arn:run''\<rparr>"
  by (simp_all add: never_completing_def quiet_services_def)

subsection \<open>Decimal numerals\<close>

lemma digit_char_value: "d < 10 \<Longrightarrow> of_char (digit_char d) = (48::nat) + d"
proof -
  assume "d < 10"
  then have "d \<in> {0, 1, 2, 3, 4, 5, 6, 7, 8, 9}"
    by auto
  then show ?thesis
    by (auto simp: digit_char_def)
qed

lemma nat_of_str_snoc: "nat_of_str (s @ [c]) = 10 * nat_of_str s + (of_char c - 48)"
  by (simp add: nat_of_str_def)

lemma nat_of_str_str_nat: "nat_of_str (str_nat n) = n"
proof (induction n rule: str_nat.induct)
  case (1 n)
  show ?case
  proof (cases "n < 10")
    case True
    then show ?thesis
      by (subst str_nat.simps) (simp add: nat_of_str_def digit_char_value)
  next
    case False
    with 1 have "nat_of_str (str_nat (n div 10)) = n div 10" by simp
    with False show ?thesis
      by (subst str_nat.simps) (simp add: nat_of_str_snoc digit_char_value)
  qed
qed

lemma str_nat_inj: "str_nat m = str_nat n \<Longrightarrow> m = n"
  by (metis nat_of_str_str_nat)

lemma str_nat_3: "str_nat (Suc (Suc (Suc 0))) = ''3''"
  by (simp add: str_nat.simps digit_char_def)

lemma str_nat_500: "str_nat 500 = ''500''" and str_nat_1000: "str_nat 1000 = ''1000''"
  by (simp_all add: str_nat.simps digit_char_def)

section \<open>Claims about the entry point\<close>

text \<open>
  C9. When image discovery returns the empty list, the process exits with status 1
  before any provisioning: the run raises \<^verbatim>\<open>SystemExit(1)\<close> and holds no instance
  launch and no termination call.
\<close>

theorem no_images_exit:
  assumes "snd (fetch_amis sv) = Return []"
  shows "snd (main fuel en sv) = Raise (SystemExit 1) \<and>
         exit_code (snd (main fuel en sv)) = Some 1 \<and>
         filter is_launch (fst (main fuel en sv)) = [] \<and>
         filter is_terminate (fst (main fuel en sv)) = []"
  by (simp add: main_no_images [OF assms] exit_code_def)

theorem no_images_exit_witness:
  "snd (fetch_amis quiet_services) = Return [] \<and>
   snd (main 1 demo_environ quiet_services) = Raise (SystemExit 1) \<and>
   exit_code (snd (main 1 demo_environ quiet_services)) = Some 1 \<and>
   filter is_launch (fst (main 1 demo_environ quiet_services)) = [] \<and>
   filter is_terminate (fst (main 1 demo_environ quiet_services)) = []"
proof -
  have h: "snd (fetch_amis quiet_services) = Return []"
    by (simp add: fetch_amis_def quiet_services_def)
  show ?thesis
    using h no_images_exit [OF h, of 1 demo_environ] by (simp add: exit_code_def)
qed

text \<open>
  C10. No run of the entry point issues a detail-retrieval call
  (\<^verbatim>\<open>describe_findings\<close>), whatever the services answer and however far the run gets.
  A run publishes nothing, or it publishes once, the message built from the length of
  a list that \<^verbatim>\<open>retrieve_finding_arns\<close> returned.
\<close>

theorem main_never_describes_findings:
  "filter is_describe_findings (fst (main fuel en sv)) = [] \<and>
   (filter is_publish (fst (main fuel en sv)) = [] \<or>
    (\<exists>a arns. snd (retrieve_finding_arns fuel sv a finding_filter) = Return arns \<and>
       arns \<noteq> [] \<and>
       filter is_publish (fst (main fuel en sv)) =
         [Publish (SNS_ALERT_TOPIC_ARN en) (alert_message (length arns))]))"
proof
  show "filter is_describe_findings (fst (main fuel en sv)) = []"
    by (simp add: main_def fst_bind_run snd_bind_run fetch_amis_trace start_ec2_intances_filter
          fst_finally_run try_block_filter finally_block_trace split: result.split)
  show "filter is_publish (fst (main fuel en sv)) = [] \<or>
    (\<exists>a arns. snd (retrieve_finding_arns fuel sv a finding_filter) = Return arns \<and>
       arns \<noteq> [] \<and>
       filter is_publish (fst (main fuel en sv)) =
         [Publish (SNS_ALERT_TOPIC_ARN en) (alert_message (length arns))])"
    using main_publish_from_try_block [of fuel en sv] try_block_publish [of fuel en sv]
    by metis
qed

theorem main_never_describes_findings_witness:
  "filter is_describe_findings (fst (main 1 demo_environ end_to_end)) = [] \<and>
   length (filter is_publish (fst (main 1 demo_environ end_to_end))) \<le> 1"
  using main_never_describes_findings [of 1 demo_environ end_to_end] by auto

text \<open>
  C1 fails on the code. Two images are discovered, the first launch succeeds and the
  second is rejected: two launch requests have been issued, the exception leaves the
  program, and no termination call is made, so the instance \<open>i-0\<close> stays.
  The call of \<^verbatim>\<open>start_ec2_intances\<close> stands before the \<^verbatim>\<open>try\<close>.
\<close>

theorem partial_provisioning_not_torn_down:
  "length (filter is_launch (fst (main fuel demo_environ second_launch_fails))) = 2 \<and>
   run_instances second_launch_fails 0 rq = Inr \<lparr>launched = Some [\<lparr>InstanceId = Some ''i-0''\<rparr>]\<rparr> \<and>
   filter is_terminate (fst (main fuel demo_environ second_launch_fails)) = [] \<and>
   snd (main fuel demo_environ second_launch_fails) = Raise (ClientError ''InstanceLimitExceeded'')"
  by (simp add: main_def fetch_amis_def second_launch_fails_def two_images_def quiet_services_def
        start_ec2_intances_def Let_def)

text \<open>
  C3. If none of the 121 polls finds a terminal state, \<^verbatim>\<open>await_inspector_results\<close>
  returns False and raises nothing. In a run of the entry point that gets as far as the
  poll loop, whatever the loop returns (\<open>b\<close> is True or False), the listing requests of
  the run are those of \<^verbatim>\<open>retrieve_finding_arns\<close>; with fuel for one request, the
  first of them is in the run.
\<close>

theorem timeout_returns_false_and_retrieval_follows:
  "((\<forall>i<121. observed sv a d i = Inr False) \<longrightarrow>
      snd (await_inspector_results sv a d) = Return False) \<and>
   (snd (fetch_amis sv) = Return amis \<and> amis \<noteq> [] \<and>
    snd (start_ec2_intances sv instance_type amis user_data tags
          (INSTANCE_SUBNET_ID en) (INSTANCE_SECURITY_GROUP en)) = Return ids \<and>
    waiter_wait sv ids = Inr u \<and>
    start_assessment_run sv (INSPECTOR_ASSESSMENT_TEMPLATE en)
      (assessmentRunName (today_at_scan_start en)) = Inr r \<and>
    snd (await_inspector_results sv (assessmentRunArn r) (today_at_await en)) = Return b \<longrightarrow>
      filter is_list_findings (fst (main fuel en sv)) =
        fst (retrieve_finding_arns fuel sv (assessmentRunArn r) finding_filter) \<and>
      (0 < fuel \<longrightarrow>
         ListFindings [assessmentRunArn r] 500 finding_filter None \<in> set (fst (main fuel en sv))))"
proof (intro conjI impI)
  assume "\<forall>i<121. observed sv a d i = Inr False"
  then show "snd (await_inspector_results sv a d) = Return False"
    by (rule await_never(1))
next
  assume h: "snd (fetch_amis sv) = Return amis \<and> amis \<noteq> [] \<and>
    snd (start_ec2_intances sv instance_type amis user_data tags
          (INSTANCE_SUBNET_ID en) (INSTANCE_SECURITY_GROUP en)) = Return ids \<and>
    waiter_wait sv ids = Inr u \<and>
    start_assessment_run sv (INSPECTOR_ASSESSMENT_TEMPLATE en)
      (assessmentRunName (today_at_scan_start en)) = Inr r \<and>
    snd (await_inspector_results sv (assessmentRunArn r) (today_at_await en)) = Return b"
  then show eq: "filter is_list_findings (fst (main fuel en sv)) =
        fst (retrieve_finding_arns fuel sv (assessmentRunArn r) finding_filter)"
    using main_list_findings [of sv amis en ids u r b fuel] by blast
  assume "0 < fuel"
  then obtain n where "fuel = Suc n"
    by (cases fuel) auto
  with retrieve_first [of n sv "assessmentRunArn r" finding_filter]
  have "ListFindings [assessmentRunArn r] 500 finding_filter None
          \<in> set (filter is_list_findings (fst (main fuel en sv)))"
    unfolding eq by auto
  then show "ListFindings [assessmentRunArn r] 500 finding_filter None \<in> set (fst (main fuel en sv))"
    by simp
qed

theorem timeout_returns_false_and_retrieval_follows_witness:
  "snd (await_inspector_results never_completing (Some ''arn:run'') scan_day) = Return False \<and>
   ListFindings [Some ''arn:run''] 500 finding_filter None
     \<in> set (fst (main 1 demo_environ never_completing))"
  using timeout_returns_false_and_retrieval_follows
    [of never_completing "Some ''arn:run''" scan_day "[Some ''ami-1'', Some ''ami-2'']"
        demo_environ "[''i-0'', ''i-1'']" "()" "\<lparr>assessmentRunArn = Some ''arn:run''\<rparr>" False 1]
  by (simp add: observed_never_completing fetch_two_images launch_two_images never_completing_fields
        await_never_completing demo_environ_def)

text \<open>
  C8. In a run of the entry point in which finding-reference retrieval returns the list
  \<open>arns\<close>: if the list is empty the run publishes nothing; otherwise it publishes
  exactly once, to the configured topic, the message
  \<^verbatim>\<open>Inspector scan resulted in N findings with filter {'severities': ['High']}\<close>
  with \<open>N\<close> the decimal numeral of the length of the list.
\<close>

theorem alert_iff_findings:
  assumes "snd (fetch_amis sv) = Return amis" and "amis \<noteq> []"
    and "snd (start_ec2_intances sv instance_type amis user_data tags
               (INSTANCE_SUBNET_ID en) (INSTANCE_SECURITY_GROUP en)) = Return ids"
    and "waiter_wait sv ids = Inr u"
    and "start_assessment_run sv (INSPECTOR_ASSESSMENT_TEMPLATE en)
           (assessmentRunName (today_at_scan_start en)) = Inr r"
    and "snd (await_inspector_results sv (assessmentRunArn r) (today_at_await en)) = Return b"
    and "snd (retrieve_finding_arns fuel sv (assessmentRunArn r) finding_filter) = Return arns"
  shows "filter is_publish (fst (main fuel en sv)) =
           (if length arns = 0 then []
            else [Publish (SNS_ALERT_TOPIC_ARN en)
                    (''Inspector scan resulted in '' @ str_nat (length arns) @
                     '' findings with filter '' @ ''{'severities': ['High']}'')]) \<and>
         nat_of_str (str_nat (length arns)) = length arns"
  by (simp add: main_publish [OF assms] alert_message_def str_finding_filter_def nat_of_str_str_nat)

theorem alert_iff_findings_witness:
  "filter is_publish (fst (main 1 demo_environ end_to_end)) =
     [Publish (Some ''arn:topic'')
        ''Inspector scan resulted in 3 findings with filter {'severities': ['High']}''] \<and>
   filter is_publish (fst (main 1 demo_environ never_completing)) = []"
  using alert_iff_findings
    [of end_to_end "[Some ''ami-1'', Some ''ami-2'']" demo_environ "[''i-0'', ''i-1'']" "()"
        "\<lparr>assessmentRunArn = Some ''arn:run''\<rparr>" True 1 "[''f-1'', ''f-2'', ''f-3'']"]
    alert_iff_findings
    [of never_completing "[Some ''ami-1'', Some ''ami-2'']" demo_environ "[''i-0'', ''i-1'']" "()"
        "\<lparr>assessmentRunArn = Some ''arn:run''\<rparr>" False 1 "[]"]
  by (simp add: fetch_two_images launch_two_images end_to_end_fields never_completing_fields
        await_end_to_end await_never_completing retrieve_end_to_end retrieve_never_completing
        demo_environ_def str_nat_3)

text \<open>
  C5 fails on the code. The scan service shows no record at any poll: the loop polls
  121 times and returns False, and no line of level FATAL is logged, because the test
  \<^verbatim>\<open>if not runs\<close> is made on a \<^verbatim>\<open>filter\<close> object, which is always true.
\<close>

theorem empty_run_list_is_not_logged:
  "describe_assessment_runs quiet_services k [Some ''arn:run''] = Inr \<lparr>assessmentRuns = Some []\<rparr> \<and>
   filter is_fatal_log (fst (await_inspector_results quiet_services (Some ''arn:run'') scan_day)) = [] \<and>
   length (filter is_poll
     (fst (await_inspector_results quiet_services (Some ''arn:run'') scan_day))) = 121 \<and>
   snd (await_inspector_results quiet_services (Some ''arn:run'') scan_day) = Return False"
  using await_never [of quiet_services "Some ''arn:run''" scan_day]
  by (simp add: observed_quiet await_filter) (simp add: quiet_services_def)

section \<open>Claims about pagination and hydration\<close>

lemma requests_only:
  "filter is_list_findings (requests a flt tok rs) = requests a flt tok rs"
  "length (requests a flt tok rs) = length rs"
  by (induction rs arbitrary: tok) simp_all

lemma retrieve_loop_delivers:
  "delivers sv a flt k tok rs \<Longrightarrow> length rs \<le> fuel \<Longrightarrow>
   retrieve_loop fuel sv a flt k tok acc = (requests a flt tok rs, Return (acc @ pages_of rs))"
proof (induction rs arbitrary: fuel k tok acc)
  case Nil
  then show ?case by simp
next
  case (Cons r rs)
  then obtain fuel' where fuel: "fuel = Suc fuel'" "length rs \<le> fuel'"
    by (cases fuel) auto
  from Cons.prems(1) obtain page where page: "findingArns r = Some page"
    by auto
  show ?case
  proof (cases "rs = []")
    case True
    with Cons.prems(1) page show ?thesis
      by (simp add: fuel pages_of_def)
  next
    case False
    with Cons.prems(1) have "delivers sv a flt (Suc k) (nextToken r) rs" "truthy (nextToken r)"
      by simp_all
    with Cons.IH [OF this(1) fuel(2), of "acc @ page"] Cons.prems(1) page show ?thesis
      by (simp add: fuel pages_of_def)
  qed
qed

lemma slice_append: "a \<le> b \<Longrightarrow> b \<le> c \<Longrightarrow> slice xs a b @ slice xs b c = slice xs a c"
proof -
  assume ab: "a \<le> b" and bc: "b \<le> c"
  have "take c xs = take b xs @ drop b (take c xs)"
    using bc by (metis append_take_drop_id min.absorb1 take_take)
  then have "drop a (take c xs) =
      drop a (take b xs) @ drop (a - length (take b xs)) (drop b (take c xs))"
    by (metis drop_append)
  moreover have "drop (a - length (take b xs)) (drop b (take c xs)) = drop b (take c xs)"
  proof (cases "b \<le> length xs")
    case True
    with ab show ?thesis by simp
  next
    case False
    then show ?thesis by simp
  qed
  ultimately show ?thesis by (simp add: slice_def)
qed

lemma slice_all: "length xs \<le> c \<Longrightarrow> slice xs 0 c = xs"
  by (simp add: slice_def)

lemma paged_1200:
  assumes "length listing = 1200" and "3 \<le> fuel"
  shows "retrieve_finding_arns fuel (paged_listing listing 500) a flt =
           ([ListFindings [a] 500 flt None, ListFindings [a] 500 flt (Some ''500''),
             ListFindings [a] 500 flt (Some ''1000'')], Return listing)"
proof -
  from assms(2) obtain f where fuel: "fuel = Suc (Suc (Suc f))"
    by (metis Suc_le_D numeral_3_eq_3 Suc_le_mono)
  have cat: "slice listing 0 500 @ slice listing 500 1000 @ slice listing 1000 1500 = listing"
    using assms(1) by (simp add: slice_append slice_all)
  show ?thesis
    using cat
    by (simp add: retrieve_finding_arns_def fuel paged_listing_def quiet_services_def truthy_def
          assms(1) str_nat_500 str_nat_1000)
qed

text \<open>
  C6. Every request of \<^verbatim>\<open>retrieve_finding_arns\<close> asks for at most 500 identifiers. When
  the service delivers the responses \<open>rs\<close> (each but the last with a continuation
  token, the last without), the function makes exactly one request per response, the
  first without a token and each later one with the token of the response before it,
  stops after the last and returns the identifiers of all responses in the order
  received. For a listing of 1200 identifiers delivered in pages of 500 it makes exactly
  3 requests and returns the 1200 identifiers in their order.
\<close>

theorem retrieve_finding_arns_pages:
  "(delivers sv a flt 0 (Some []) rs \<and> length rs \<le> fuel \<longrightarrow>
      retrieve_finding_arns fuel sv a flt = (requests a flt (Some []) rs, Return (pages_of rs)) \<and>
      length (filter is_list_findings (fst (retrieve_finding_arns fuel sv a flt))) = length rs) \<and>
   (length listing = 1200 \<and> 3 \<le> fuel \<longrightarrow>
      retrieve_finding_arns fuel (paged_listing listing 500) a flt =
        ([ListFindings [a] 500 flt None, ListFindings [a] 500 flt (Some ''500''),
          ListFindings [a] 500 flt (Some ''1000'')], Return listing))"
  using retrieve_loop_delivers [of sv a flt 0 "Some []" rs fuel "[]"]
    paged_1200 [of listing fuel a flt]
  by (auto simp: retrieve_finding_arns_def requests_only)

theorem retrieve_finding_arns_pages_witness:
  "retrieve_finding_arns 1 end_to_end (Some ''arn:run'') finding_filter =
     ([ListFindings [Some ''arn:run''] 500 finding_filter None], Return [''f-1'', ''f-2'', ''f-3'']) \<and>
   length (fst (retrieve_finding_arns 3 (paged_listing (map str_nat [0 ..< 1200]) 500)
     (Some ''arn:run'') finding_filter)) = 3 \<and>
   snd (retrieve_finding_arns 3 (paged_listing (map str_nat [0 ..< 1200]) 500)
     (Some ''arn:run'') finding_filter) = Return (map str_nat [0 ..< 1200])"
  using retrieve_finding_arns_pages
    [of end_to_end "Some ''arn:run''" finding_filter
        "[\<lparr>nextToken = None, findingArns = Some [''f-1'', ''f-2'', ''f-3'']\<rparr>]" 1
        "map str_nat [0 ..< 1200]"]
    retrieve_finding_arns_pages
    [of end_to_end "Some ''arn:run''" finding_filter
        "[\<lparr>nextToken = None, findingArns = Some [''f-1'', ''f-2'', ''f-3'']\<rparr>]" 3
        "map str_nat [0 ..< 1200]"]
  by (simp add: end_to_end_def truthy_def pages_of_def)

lemma distinct_arns250: "distinct arns250"
  by (auto simp: arns250_def distinct_map inj_on_def dest: str_nat_inj)

lemma length_arns250: "length arns250 = 250"
  by (simp add: arns250_def)

lemma nth_notin_slice:
  assumes "distinct xs" and "i < length xs" and "i < a \<or> b \<le> i"
  shows "xs ! i \<notin> set (slice xs a b)"
proof
  assume "xs ! i \<in> set (slice xs a b)"
  then obtain j where j: "j < length (slice xs a b)" "slice xs a b ! j = xs ! i"
    by (auto simp: in_set_conv_nth)
  from j(1) have lt: "a + j < length xs" "a + j < b"
    by (simp_all add: slice_def)
  then have "slice xs a b ! j = xs ! (a + j)"
    by (simp add: slice_def)
  with j(2) have "xs ! (a + j) = xs ! i"
    by simp
  with assms(1,2) lt(1) have "a + j = i"
    by (simp add: nth_eq_iff_index_eq)
  with assms(3) lt(2) show False
    by simp
qed

lemma hydrate_count:
  "snd (hydrate sv xs is fs) = Return out \<Longrightarrow>
   length (filter is_describe_findings (fst (hydrate sv xs is fs))) = length is"
proof (induction "is" arbitrary: fs)
  case Nil
  then show ?case by simp
next
  case (Cons i "is")
  then show ?case
    by (auto simp: Let_def fst_bind_run snd_bind_run call_def split: sum.splits option.splits)
qed

lemma ceil_div_100: "ceil_div n 100 = nat \<lceil>real n / 100\<rceil>"
proof -
  have "\<lceil>real n / 100\<rceil> = int ((n + 99) div 100)"
    by (simp add: ceiling_unique field_simps)
  then show ?thesis by (simp add: ceil_div_def)
qed

lemma retrieve_findings_250:
  assumes "length xs = 250"
  shows "retrieve_findings quiet_services xs =
           ([DescribeFindings (slice xs 0 99), DescribeFindings (slice xs 100 199),
             DescribeFindings (slice xs 200 249)],
            Return (map Finding (slice xs 0 99 @ slice xs 100 199 @ slice xs 200 249)))"
proof -
  have idx: "[0 ..< ceil_div 250 100] = [0, 1, 2]"
    by (simp add: ceil_div_def upt_rec)
  show ?thesis
    by (simp add: retrieve_findings_def assms idx Let_def pagination_start_def pagination_end_def
          quiet_services_def)
qed

text \<open>
  C7. When \<^verbatim>\<open>retrieve_findings\<close> returns, it has issued exactly \<open>ceil(n / 100)\<close>
  detail-retrieval calls for a list of \<open>n\<close> identifiers; for \<open>n = 250\<close> these are 3 calls.
\<close>

theorem retrieve_findings_calls:
  "(snd (retrieve_findings sv xs) = Return fs \<longrightarrow>
      length (filter is_describe_findings (fst (retrieve_findings sv xs))) =
        nat \<lceil>real (length xs) / 100\<rceil>) \<and>
   (snd (retrieve_findings sv xs) = Return fs \<and> length xs = 250 \<longrightarrow>
      length (filter is_describe_findings (fst (retrieve_findings sv xs))) = 3)"
proof -
  have "length (filter is_describe_findings (fst (retrieve_findings sv xs))) =
          ceil_div (length xs) 100"
    if "snd (retrieve_findings sv xs) = Return fs"
    using that hydrate_count [of sv xs "[0 ..< ceil_div (length xs) 100]" "[]" fs]
    by (simp add: retrieve_findings_def)
  moreover have "ceil_div 250 100 = 3"
    by (simp add: ceil_div_def)
  ultimately show ?thesis
    by (auto simp: ceil_div_100 [symmetric])
qed

theorem retrieve_findings_calls_witness:
  "(\<exists>fs. snd (retrieve_findings quiet_services arns250) = Return fs) \<and>
   length (filter is_describe_findings (fst (retrieve_findings quiet_services arns250))) = 3 \<and>
   nat \<lceil>real (length arns250) / 100\<rceil> = 3"
  using retrieve_findings_calls
    [of quiet_services arns250
        "map Finding (slice arns250 0 99 @ slice arns250 100 199 @ slice arns250 200 249)"]
  by (simp add: retrieve_findings_250 [OF length_arns250] length_arns250)

text \<open>
  C4 fails on the code. For 250 distinct identifiers and a service that answers every
  call, the three calls get the slices \<^verbatim>\<open>[0:99]\<close>, \<^verbatim>\<open>[100:199]\<close> and \<^verbatim>\<open>[200:249]\<close>, of 99, 99
  and 49 identifiers: a slice leaves out its end index, so the identifiers at the
  indices 99, 199 and 249 reach no call, and the first two of them are not in the final
  batch.
\<close>

theorem hydration_omits_the_end_of_every_window:
  "length arns250 = 250 \<and> distinct arns250 \<and>
   fst (retrieve_findings quiet_services arns250) =
     [DescribeFindings (slice arns250 0 99), DescribeFindings (slice arns250 100 199),
      DescribeFindings (slice arns250 200 249)] \<and>
   map length [slice arns250 0 99, slice arns250 100 199, slice arns250 200 249] = [99, 99, 49] \<and>
   arns250 ! 99 \<notin> set (requested (fst (retrieve_findings quiet_services arns250))) \<and>
   arns250 ! 199 \<notin> set (requested (fst (retrieve_findings quiet_services arns250))) \<and>
   arns250 ! 249 \<notin> set (requested (fst (retrieve_findings quiet_services arns250)))"
  by (simp add: retrieve_findings_250 [OF length_arns250] length_arns250 distinct_arns250
        requested_def nth_notin_slice)
     (simp add: slice_def length_arns250)

end
